theory Spec2Isabelle
  imports Main "HOL-Library.Word" "HOL-Library.Sublist"
begin

section \<open>Strings, values and thrown errors of the host language\<close>

text \<open>
  The application is a single React component, \<^verbatim>\<open>App\<close> in \<^verbatim>\<open>frontend/src/ui/App.tsx\<close>.
  Its strings are JavaScript strings: sequences of 16-bit code units, whose \<^verbatim>\<open>length\<close> and
  \<^verbatim>\<open>slice\<close> count code units. A literal of the source is written \<open>js ''...''\<close>.
\<close>

type_synonym jsstring = "16 word list"

definition js :: "string \<Rightarrow> jsstring" where
  "js s = map of_char s"

text \<open>
  \<^verbatim>\<open>toLowerCase\<close>, on the ASCII letters; other code units are left as they are. The only
  use in the source compares the result with the ASCII constant \<^verbatim>\<open>'0x4cef52'\<close>, and no
  code unit outside ASCII has a lower-case form made of the characters of that constant, so
  the comparison comes out as in JavaScript.
\<close>

definition toLowerCase :: "jsstring \<Rightarrow> jsstring" where
  "toLowerCase s = map (\<lambda>c. if 0x41 \<le> c \<and> c \<le> 0x5A then c + 0x20 else c) s"

text \<open>\<^verbatim>\<open>s.includes(sub)\<close>: \<open>sub\<close> occurs in \<open>s\<close> as a contiguous block.\<close>

fun str_includes :: "jsstring \<Rightarrow> jsstring \<Rightarrow> bool" where
  "str_includes [] sub = (sub = [])"
| "str_includes (c # cs) sub = (prefix sub (c # cs) \<or> str_includes cs sub)"

text \<open>A value of type \<^verbatim>\<open>any\<close> returned by the wallet: a string, or anything else.\<close>

datatype js_value = JString jsstring | JOther

text \<open>
  A thrown value is \<^verbatim>\<open>any\<close>. The source probes it for truthiness and for the properties
  \<^verbatim>\<open>code\<close>, \<^verbatim>\<open>shortMessage\<close> and \<^verbatim>\<open>message\<close>, and falls back on \<^verbatim>\<open>String(e)\<close>.
  An absent property is \<open>None\<close>; a property that is present is a string.
\<close>

datatype js_code = NoCode | NumCode int | StrCode jsstring

datatype js_error =
    Falsy
  | ErrorObject js_code "jsstring option" "jsstring option" jsstring

fun err_code :: "js_error \<Rightarrow> js_code" where
  "err_code Falsy = NoCode"
| "err_code (ErrorObject c sm m str) = c"

fun err_shortMessage :: "js_error \<Rightarrow> jsstring option" where
  "err_shortMessage Falsy = None"
| "err_shortMessage (ErrorObject c sm m str) = sm"

fun err_message :: "js_error \<Rightarrow> jsstring option" where
  "err_message Falsy = None"
| "err_message (ErrorObject c sm m str) = m"

text \<open>Truthiness of an optional string: \<^verbatim>\<open>undefined\<close> and \<^verbatim>\<open>''\<close> are falsy.\<close>

fun truthy :: "jsstring option \<Rightarrow> bool" where
  "truthy None = False"
| "truthy (Some s) = (s \<noteq> [])"

text \<open>\<^verbatim>\<open>e?.message?.includes(sub)\<close>, read as a condition.\<close>

fun message_includes :: "js_error \<Rightarrow> jsstring \<Rightarrow> bool" where
  "message_includes e sub = (case err_message e of None \<Rightarrow> False | Some m \<Rightarrow> str_includes m sub)"

section \<open>Data model\<close>

datatype log_type = Info | Success | Error

record LogItem =
  type :: log_type
  message :: jsstring
  href :: "jsstring option"

record DeployedAddresses =
  nft :: "jsstring option"
  token :: "jsstring option"

record NativeCurrency =
  name :: jsstring
  symbol :: jsstring
  decimals :: nat

record ChainParams =
  chainId :: jsstring
  chainName :: jsstring
  nativeCurrency :: NativeCurrency
  rpcUrls :: "jsstring list"
  blockExplorerUrls :: "jsstring list"

definition ARC_CHAIN_ID_HEX :: jsstring where
  "ARC_CHAIN_ID_HEX = js ''0x4cef52''"

definition ARC_PARAMS :: ChainParams where
  "ARC_PARAMS = \<lparr>chainId = ARC_CHAIN_ID_HEX,
     chainName = js ''Arc Testnet'',
     nativeCurrency = \<lparr>name = js ''USDC'', symbol = js ''USDC'', decimals = 18\<rparr>,
     rpcUrls = [js ''https://rpc.testnet.arc.network''],
     blockExplorerUrls = [js ''https://testnet.arcscan.app'']\<rparr>"

text \<open>
  The component's state: one field for each \<^verbatim>\<open>useState\<close>. The provider object wraps the
  injected wallet; what the wallet answers is in the environment below.
\<close>

datatype BrowserProvider = BrowserProvider

record app_state =
  provider :: "BrowserProvider option"
  signerAddress :: jsstring
  busy :: bool
  deployed :: DeployedAddresses
  logs :: "LogItem list"
  nativeBalance :: jsstring
  sendRecipient :: jsstring
  sendAmount :: jsstring
  swapAmount :: jsstring

definition initial_state :: app_state where
  "initial_state = \<lparr>provider = None, signerAddress = [], busy = False,
     deployed = \<lparr>nft = None, token = None\<rparr>, logs = [], nativeBalance = [],
     sendRecipient = [], sendAmount = [], swapAmount = []\<rparr>"

section \<open>The wallet and the chain\<close>

text \<open>Objects handed back by the ethers library.\<close>

record Signer =
  address :: jsstring

record TransactionResponse =
  hash :: jsstring

text \<open>
  The contract object returned by \<^verbatim>\<open>factory.deploy()\<close>: \<^verbatim>\<open>getAddress()\<close> reads
  \<open>target\<close>, \<^verbatim>\<open>deploymentTransaction()\<close> reads \<open>deployTx\<close> (which may be \<^verbatim>\<open>null\<close>).
\<close>

record DeployedContract =
  target :: jsstring
  deployTx :: "TransactionResponse option"

datatype artifact = SimpleNFTArtifact | EscbaseTokenArtifact

datatype params = NoParams | SwitchChain jsstring | AddChain ChainParams

text \<open>
  Every request the component makes to the wallet or the chain. \<open>Send\<close> is
  \<^verbatim>\<open>prov.send(method, params)\<close>; the others are the ethers calls of the same name, with the
  contract address or transaction hash they are made on. What the library sends on its own
  behalf while serving a call is not recorded.
\<close>

datatype call =
    Send jsstring params
  | GetSigner
  | GetBalance jsstring
  | FactoryDeploy artifact
  | WaitForDeployment jsstring
  | Owner jsstring
  | Mint jsstring jsstring "int option"
  | Swap jsstring int
  | SendTransaction jsstring int
  | Wait jsstring

text \<open>The requests issued so far, oldest first, each with whether it was fulfilled.\<close>

type_synonym history = "(call \<times> bool) list"

text \<open>
  The environment answers each request, as a function of the requests that came before it:
  \<open>Inl\<close> is a rejected promise. Nothing is assumed about the answers. Every awaited promise
  is taken to settle; a wallet that never answers is outside this model. The last two
  fields are the error objects the ethers library throws from its number parser and
  formatter, whose text is not part of the repository: \<open>invalid_argument\<close> of the
  offending text, \<open>numeric_fault\<close> of the fault (\<^verbatim>\<open>underflow\<close> for too many decimals,
  \<^verbatim>\<open>overflow\<close> for a value out of range) and of the operation.
\<close>

record env =
  ethereum :: bool
  send_result :: "history \<Rightarrow> jsstring \<Rightarrow> params \<Rightarrow> js_error + js_value"
  getSigner_result :: "history \<Rightarrow> js_error + Signer"
  getBalance_result :: "history \<Rightarrow> jsstring \<Rightarrow> js_error + int"
  deploy_result :: "history \<Rightarrow> artifact \<Rightarrow> js_error + DeployedContract"
  waitForDeployment_result :: "history \<Rightarrow> DeployedContract \<Rightarrow> js_error + unit"
  owner_result :: "history \<Rightarrow> jsstring \<Rightarrow> js_error + jsstring"
  mint_result :: "history \<Rightarrow> jsstring \<Rightarrow> jsstring \<Rightarrow> int option \<Rightarrow> js_error + TransactionResponse"
  swap_result :: "history \<Rightarrow> jsstring \<Rightarrow> int \<Rightarrow> js_error + TransactionResponse"
  sendTransaction_result :: "history \<Rightarrow> jsstring \<Rightarrow> int \<Rightarrow> js_error + TransactionResponse"
  wait_result :: "history \<Rightarrow> TransactionResponse \<Rightarrow> js_error + unit"
  invalid_argument :: "jsstring \<Rightarrow> js_error"
  numeric_fault :: "jsstring \<Rightarrow> jsstring \<Rightarrow> js_error"

text \<open>
  Everything an action can change: the component's state, the requests issued, and the two
  browser effects the source uses (\<^verbatim>\<open>alert\<close> and \<^verbatim>\<open>console.error\<close>).
\<close>

record sys =
  app :: app_state
  history :: history
  alerts :: "jsstring list"
  console :: "js_error list"

section \<open>Asynchronous code with exceptions\<close>

text \<open>
  An \<^verbatim>\<open>async\<close> function body runs from a state and ends either with a value or with a
  thrown error; the state changes made before a throw stay.
\<close>

type_synonym 'a action = "sys \<Rightarrow> (js_error + 'a) \<times> sys"

definition ret :: "'a \<Rightarrow> 'a action" where
  "ret x \<sigma> = (Inr x, \<sigma>)"

definition throw :: "js_error \<Rightarrow> 'a action" where
  "throw e \<sigma> = (Inl e, \<sigma>)"

definition bind :: "'a action \<Rightarrow> ('a \<Rightarrow> 'b action) \<Rightarrow> 'b action" where
  "bind m f \<sigma> = (case m \<sigma> of (Inl e, \<sigma>') \<Rightarrow> (Inl e, \<sigma>') | (Inr x, \<sigma>') \<Rightarrow> f x \<sigma>')"

definition try_catch :: "'a action \<Rightarrow> (js_error \<Rightarrow> 'a action) \<Rightarrow> 'a action" where
  "try_catch m h \<sigma> = (case m \<sigma> of (Inl e, \<sigma>') \<Rightarrow> h e \<sigma>' | (Inr x, \<sigma>') \<Rightarrow> (Inr x, \<sigma>'))"

definition try_finally :: "'a action \<Rightarrow> unit action \<Rightarrow> 'a action" where
  "try_finally m c \<sigma> =
     (case m \<sigma> of (r, \<sigma>') \<Rightarrow>
        (case c \<sigma>' of (Inl e, \<sigma>'') \<Rightarrow> (Inl e, \<sigma>'') | (Inr u, \<sigma>'') \<Rightarrow> (r, \<sigma>'')))"

text \<open>Lifting a synchronous library call that returns or throws.\<close>

definition lift :: "js_error + 'a \<Rightarrow> 'a action" where
  "lift r \<sigma> = (r, \<sigma>)"

text \<open>Issuing a request: the environment answers from the history, which grows by the request.\<close>

definition request :: "call \<Rightarrow> (history \<Rightarrow> js_error + 'a) \<Rightarrow> 'a action" where
  "request c answer \<sigma> =
     (let r = answer (history \<sigma>)
      in (r, \<sigma>\<lparr>history := history \<sigma> @ [(c, \<not> isl r)]\<rparr>))"

definition modify :: "(app_state \<Rightarrow> app_state) \<Rightarrow> unit action" where
  "modify f \<sigma> = (Inr (), \<sigma>\<lparr>app := f (app \<sigma>)\<rparr>)"

definition read_state :: "app_state action" where
  "read_state \<sigma> = (Inr (app \<sigma>), \<sigma>)"

definition alert :: "jsstring \<Rightarrow> unit action" where
  "alert m \<sigma> = (Inr (), \<sigma>\<lparr>alerts := alerts \<sigma> @ [m]\<rparr>)"

definition console_error :: "js_error \<Rightarrow> unit action" where
  "console_error e \<sigma> = (Inr (), \<sigma>\<lparr>console := console \<sigma> @ [e]\<rparr>)"

section \<open>Decimal amounts (ethers \<^verbatim>\<open>parseUnits\<close> and \<^verbatim>\<open>formatUnits\<close>)\<close>

text \<open>
  Amounts are \<^verbatim>\<open>bigint\<close> values, unbounded integers. The two conversions between them and
  decimal text belong to the ethers library (version 6, \<^verbatim>\<open>FixedNumber\<close> with 512 signed
  bits), which the repository imports; they are modelled here after that library: its
  loops are the recursive functions below, and \<open>Zeros\<close> is its block of padding zeros.
\<close>

definition is_digit :: "16 word \<Rightarrow> bool" where
  "is_digit c = (0x30 \<le> c \<and> c \<le> 0x39)"

definition digit_char :: "nat \<Rightarrow> 16 word" where
  "digit_char d = of_nat (48 + d)"

definition digit_val :: "16 word \<Rightarrow> nat" where
  "digit_val c = unat c - 48"

text \<open>\<^verbatim>\<open>val.toString()\<close> of a non-negative \<^verbatim>\<open>bigint\<close>.\<close>

fun toString_digits :: "nat \<Rightarrow> jsstring" where
  "toString_digits n =
     (if n < 10 then [digit_char n] else toString_digits (n div 10) @ [digit_char (n mod 10)])"

declare toString_digits.simps [simp del]

text \<open>\<^verbatim>\<open>BigInt(s)\<close> of a string of decimal digits.\<close>

definition BigInt_digits :: "jsstring \<Rightarrow> nat" where
  "BigInt_digits s = foldl (\<lambda>a c. 10 * a + digit_val c) 0 s"

definition Zeros :: jsstring where
  "Zeros = replicate 128 0x30"

text \<open>\<^verbatim>\<open>while (str.length <= decimals) { str = Zeros + str; }\<close>\<close>

function pad_whole :: "nat \<Rightarrow> jsstring \<Rightarrow> jsstring" where
  "pad_whole d str = (if length str \<le> d then pad_whole d (Zeros @ str) else str)"
  by pat_completeness auto
termination
  by (relation "measure (\<lambda>(d, str). Suc d - length str)") (auto simp: Zeros_def)

declare pad_whole.simps [simp del]

text \<open>\<^verbatim>\<open>while (decimal.length < decimals) { decimal += Zeros; }\<close>\<close>

function pad_decimal :: "nat \<Rightarrow> jsstring \<Rightarrow> jsstring" where
  "pad_decimal d str = (if length str < d then pad_decimal d (str @ Zeros) else str)"
  by pat_completeness auto
termination
  by (relation "measure (\<lambda>(d, str). d - length str)") (auto simp: Zeros_def)

declare pad_decimal.simps [simp del]

text \<open>
  \<^verbatim>\<open>while (str[0] === "0" && str[1] !== ".") { str = str.substring(1); }\<close>
  Reading past the end gives \<^verbatim>\<open>undefined\<close>, which differs from \<^verbatim>\<open>"."\<close>.
\<close>

fun trim_whole :: "jsstring \<Rightarrow> jsstring" where
  "trim_whole (a # b # str) = (if a = 0x30 \<and> b \<noteq> 0x2E then trim_whole (b # str) else a # b # str)"
| "trim_whole [a] = (if a = 0x30 then [] else [a])"
| "trim_whole [] = []"

text \<open>
  \<^verbatim>\<open>while (str[str.length - 1] === "0" && str[str.length - 2] !== ".")
           { str = str.substring(0, str.length - 1); }\<close>
  is the same loop run from the other end.
\<close>

definition trim_decimal :: "jsstring \<Rightarrow> jsstring" where
  "trim_decimal str = rev (trim_whole (rev str))"

text \<open>The library's \<^verbatim>\<open>toString(val, decimals)\<close>.\<close>

definition fixed_toString :: "int \<Rightarrow> nat \<Rightarrow> jsstring" where
  "fixed_toString val ds =
     (let negative = (if val < 0 then js ''-'' else []);
          str = toString_digits (nat \<bar>val\<bar>)
      in if ds = 0 then negative @ str
         else let str = pad_whole ds str;
                  index = length str - ds;
                  str = take index str @ js ''.'' @ drop index str;
                  str = trim_whole str;
                  str = trim_decimal str
              in negative @ str)"

text \<open>The library's range check for 512 signed bits.\<close>

definition checkValue :: "int \<Rightarrow> bool" where
  "checkValue val = (- (2 ^ 511) \<le> val \<and> val < 2 ^ 511)"

definition formatUnits :: "env \<Rightarrow> int \<Rightarrow> nat \<Rightarrow> js_error + jsstring" where
  "formatUnits env val ds =
     (if checkValue val then Inr (fixed_toString val ds)
      else Inl (numeric_fault env (js ''overflow'') (js ''fromValue'')))"

text \<open>
  \<^verbatim>\<open>parseUnits(value, decimals)\<close>: the text is matched against
  \<^verbatim>\<open>/^(-?)([0-9]*)\.?([0-9]*)$/\<close>; each group takes the longest run it can.
\<close>

definition parseUnits :: "env \<Rightarrow> jsstring \<Rightarrow> nat \<Rightarrow> js_error + int" where
  "parseUnits env val ds =
     (let negative = (val \<noteq> [] \<and> hd val = 0x2D);
          r = (if negative then tl val else val);
          whole = takeWhile is_digit r;
          r = dropWhile is_digit r;
          r = (if r \<noteq> [] \<and> hd r = 0x2E then tl r else r);
          decimal = takeWhile is_digit r;
          r = dropWhile is_digit r
      in if r \<noteq> [] \<or> length whole + length decimal = 0 then Inl (invalid_argument env val)
         else let whole = (if whole = [] then js ''0'' else whole);
                  decimal = pad_decimal ds decimal
              in if \<not> list_all (\<lambda>c. c = 0x30) (drop ds decimal)
                 then Inl (numeric_fault env (js ''underflow'') (js ''fromString''))
                 else let decimal = take ds decimal;
                          v = int (BigInt_digits (whole @ decimal));
                          v = (if negative then - v else v)
                      in if checkValue v then Inr v
                         else Inl (numeric_fault env (js ''overflow'') (js ''fromString'')))"

section \<open>The component's functions\<close>

definition pushLog :: "LogItem \<Rightarrow> unit action" where
  "pushLog item = modify (\<lambda>s. s\<lparr>logs := item # logs s\<rparr>)"

definition addressLink :: "jsstring \<Rightarrow> jsstring" where
  "addressLink addr = js ''https://testnet.arcscan.app/address/'' @ addr"

definition txLink :: "jsstring \<Rightarrow> jsstring" where
  "txLink h = js ''https://testnet.arcscan.app/tx/'' @ h"

text \<open>\<^verbatim>\<open>a || b\<close> on an optional string \<open>a\<close>.\<close>

fun or_else :: "jsstring option \<Rightarrow> jsstring \<Rightarrow> jsstring" where
  "or_else None d = d"
| "or_else (Some s) d = (if s \<noteq> [] then s else d)"

definition getErrorMessage :: "js_error \<Rightarrow> jsstring" where
  "getErrorMessage e =
     (case e of
        Falsy \<Rightarrow> js ''Unknown error''
      | ErrorObject c sm m str \<Rightarrow>
          if c = NumCode 4001 \<or> message_includes e (js ''ACTION_REJECTED'')
          then js ''User rejected in MetaMask''
          else let msg = or_else sm (or_else m str)
               in if length msg > 180 then take 180 msg @ [0x2026] else msg)"

text \<open>The calls of the source on the provider, signer, factory and contract objects.\<close>

definition send :: "env \<Rightarrow> jsstring \<Rightarrow> params \<Rightarrow> js_value action" where
  "send env method ps = request (Send method ps) (\<lambda>h. send_result env h method ps)"

definition getSigner :: "env \<Rightarrow> Signer action" where
  "getSigner env = request GetSigner (getSigner_result env)"

definition getBalance :: "env \<Rightarrow> jsstring \<Rightarrow> int action" where
  "getBalance env addr = request (GetBalance addr) (\<lambda>h. getBalance_result env h addr)"

definition factory_deploy :: "env \<Rightarrow> artifact \<Rightarrow> DeployedContract action" where
  "factory_deploy env art = request (FactoryDeploy art) (\<lambda>h. deploy_result env h art)"

definition waitForDeployment :: "env \<Rightarrow> DeployedContract \<Rightarrow> unit action" where
  "waitForDeployment env c =
     request (WaitForDeployment (target c)) (\<lambda>h. waitForDeployment_result env h c)"

definition contract_owner :: "env \<Rightarrow> jsstring \<Rightarrow> jsstring action" where
  "contract_owner env addr = request (Owner addr) (\<lambda>h. owner_result env h addr)"

definition contract_mint :: "env \<Rightarrow> jsstring \<Rightarrow> jsstring \<Rightarrow> int option \<Rightarrow> TransactionResponse action" where
  "contract_mint env addr to amount =
     request (Mint addr to amount) (\<lambda>h. mint_result env h addr to amount)"

definition contract_swap :: "env \<Rightarrow> jsstring \<Rightarrow> int \<Rightarrow> TransactionResponse action" where
  "contract_swap env addr v = request (Swap addr v) (\<lambda>h. swap_result env h addr v)"

definition sendTransaction :: "env \<Rightarrow> jsstring \<Rightarrow> int \<Rightarrow> TransactionResponse action" where
  "sendTransaction env to v =
     request (SendTransaction to v) (\<lambda>h. sendTransaction_result env h to v)"

definition tx_wait :: "env \<Rightarrow> TransactionResponse \<Rightarrow> unit action" where
  "tx_wait env tx = request (Wait (hash tx)) (\<lambda>h. wait_result env h tx)"

definition setBusy :: "bool \<Rightarrow> unit action" where
  "setBusy b = modify (\<lambda>s. s\<lparr>busy := b\<rparr>)"

definition setNativeBalance :: "jsstring \<Rightarrow> unit action" where
  "setNativeBalance b = modify (\<lambda>s. s\<lparr>nativeBalance := b\<rparr>)"

text \<open>The \<^verbatim>\<open>catch\<close> block shared by the six actions.\<close>

definition log_error :: "js_error \<Rightarrow> unit action" where
  "log_error e = pushLog \<lparr>type = Error, message = getErrorMessage e, href = None\<rparr>"

definition ensureArcNetwork_try :: "env \<Rightarrow> BrowserProvider \<Rightarrow> bool action" where
  "ensureArcNetwork_try env prov =
     bind (send env (js ''eth_chainId'') NoParams) (\<lambda>current.
       if (case current of JString c \<Rightarrow> toLowerCase c = ARC_CHAIN_ID_HEX | JOther \<Rightarrow> False)
       then ret True
       else
         try_catch
           (bind (send env (js ''wallet_switchEthereumChain'') (SwitchChain ARC_CHAIN_ID_HEX))
              (\<lambda>_. ret True))
           (\<lambda>err.
              if err \<noteq> Falsy \<and>
                 (err_code err = NumCode 4902 \<or> message_includes err (js ''Unrecognized chain''))
              then
                bind (send env (js ''wallet_addEthereumChain'') (AddChain ARC_PARAMS)) (\<lambda>_.
                bind (send env (js ''wallet_switchEthereumChain'') (SwitchChain ARC_CHAIN_ID_HEX))
                  (\<lambda>_. ret True))
              else throw err))"

text \<open>The entry pushed by the \<^verbatim>\<open>catch\<close> block of \<^verbatim>\<open>ensureArcNetwork\<close>.\<close>

definition switch_error_entry :: "js_error \<Rightarrow> LogItem" where
  "switch_error_entry e =
     \<lparr>type = Error,
       message = js ''Failed to switch to Arc Testnet: '' @
                 or_else (err_message e) (js ''unknown error''),
       href = None\<rparr>"

definition ensureArcNetwork :: "env \<Rightarrow> BrowserProvider \<Rightarrow> bool action" where
  "ensureArcNetwork env prov =
     try_catch (ensureArcNetwork_try env prov)
       (\<lambda>e.
          bind (console_error e) (\<lambda>_.
          bind (pushLog (switch_error_entry e)) (\<lambda>_.
          ret False)))"

text \<open>
  The balance read, written three times in the source (in \<^verbatim>\<open>connect\<close>, and under the
  comment \<^verbatim>\<open>// Refresh balance\<close> in \<^verbatim>\<open>sendUSDC\<close> and \<^verbatim>\<open>swapUSDCtoESC\<close>).
\<close>

definition refreshBalance :: "env \<Rightarrow> jsstring \<Rightarrow> unit action" where
  "refreshBalance env addr =
     bind (getBalance env addr) (\<lambda>bal.
     bind (lift (formatUnits env bal 18)) (\<lambda>txt.
     setNativeBalance txt))"

definition connect :: "env \<Rightarrow> unit action" where
  "connect env =
     (if \<not> ethereum env then alert (js ''MetaMask not found. Please install it.'')
      else
        let prov = BrowserProvider in
        bind (send env (js ''eth_requestAccounts'') NoParams) (\<lambda>_.
        bind (ensureArcNetwork env prov) (\<lambda>ok.
        if \<not> ok then ret ()
        else
          bind (getSigner env) (\<lambda>signer.
          bind (modify (\<lambda>s. s\<lparr>provider := Some prov\<rparr>)) (\<lambda>_.
          bind (modify (\<lambda>s. s\<lparr>signerAddress := address signer\<rparr>)) (\<lambda>_.
          bind (try_catch (refreshBalance env (address signer)) (\<lambda>e. ret ())) (\<lambda>_.
          pushLog \<lparr>type = Success, message = js ''Wallet connected and on Arc Testnet.'',
                   href = None\<rparr>)))))))"

text \<open>
  The frame shared by the six actions:
  \<^verbatim>\<open>setBusy(true); try { ... } catch (e) { pushLog(error) } finally { setBusy(false) }\<close>.
  Each action below is its entry guard, then this frame around its \<^verbatim>\<open>try\<close> block.
\<close>

definition with_busy :: "unit action \<Rightarrow> unit action" where
  "with_busy body =
     bind (setBusy True) (\<lambda>_.
     try_finally (try_catch body log_error) (setBusy False))"

definition deployNFT_try :: "env \<Rightarrow> unit action" where
  "deployNFT_try env =
     bind (getSigner env) (\<lambda>signer.
     bind (factory_deploy env SimpleNFTArtifact) (\<lambda>contract.
     bind (waitForDeployment env contract) (\<lambda>_.
     bind (modify (\<lambda>s. s\<lparr>deployed := (deployed s)\<lparr>nft := Some (target contract)\<rparr>\<rparr>)) (\<lambda>_.
     bind (pushLog \<lparr>type = Success,
             message = js ''Deployed SimpleNFT at '' @ target contract,
             href = Some (addressLink (target contract))\<rparr>) (\<lambda>_.
     case deployTx contract of
       None \<Rightarrow> ret ()
     | Some tx \<Rightarrow>
         if hash tx \<noteq> []
         then pushLog \<lparr>type = Info, message = js ''Deployment tx'',
                href = Some (txLink (hash tx))\<rparr>
         else ret ())))))"

definition deployNFT :: "env \<Rightarrow> unit action" where
  "deployNFT env =
     bind read_state (\<lambda>s.
     if provider s = None then ret ()
     else with_busy (deployNFT_try env))"

definition deployToken_try :: "env \<Rightarrow> unit action" where
  "deployToken_try env =
     bind (getSigner env) (\<lambda>signer.
     bind (factory_deploy env EscbaseTokenArtifact) (\<lambda>contract.
     bind (waitForDeployment env contract) (\<lambda>_.
     bind (modify (\<lambda>s. s\<lparr>deployed := (deployed s)\<lparr>token := Some (target contract)\<rparr>\<rparr>)) (\<lambda>_.
     bind (pushLog \<lparr>type = Success,
             message = js ''Deployed EscbaseToken at '' @ target contract,
             href = Some (addressLink (target contract))\<rparr>) (\<lambda>_.
     case deployTx contract of
       None \<Rightarrow> ret ()
     | Some tx \<Rightarrow>
         if hash tx \<noteq> []
         then pushLog \<lparr>type = Info, message = js ''Deployment tx'',
                href = Some (txLink (hash tx))\<rparr>
         else ret ())))))"

definition deployToken :: "env \<Rightarrow> unit action" where
  "deployToken env =
     bind read_state (\<lambda>s.
     if provider s = None then ret ()
     else with_busy (deployToken_try env))"

text \<open>
  The guards \<^verbatim>\<open>!deployed.nft\<close> and \<^verbatim>\<open>!deployed.token\<close> hold for an absent entry
  and for the empty string.
\<close>

definition mintNft_try :: "env \<Rightarrow> jsstring \<Rightarrow> unit action" where
  "mintNft_try env addr =
     bind (getSigner env) (\<lambda>signer.
     bind (contract_owner env addr) (\<lambda>owner.
     bind (contract_mint env addr owner None) (\<lambda>tx.
     bind (tx_wait env tx) (\<lambda>_.
     pushLog \<lparr>type = Success, message = js ''Minted NFT to owner'',
              href = Some (txLink (hash tx))\<rparr>))))"

definition mintNft :: "env \<Rightarrow> unit action" where
  "mintNft env =
     bind read_state (\<lambda>s.
     case nft (deployed s) of
       None \<Rightarrow> ret ()
     | Some addr \<Rightarrow>
         if provider s = None \<or> addr = [] then ret ()
         else with_busy (mintNft_try env addr))"

definition mintToken_try :: "env \<Rightarrow> jsstring \<Rightarrow> unit action" where
  "mintToken_try env addr =
     bind (getSigner env) (\<lambda>signer.
     bind (contract_owner env addr) (\<lambda>owner.
     bind (lift (parseUnits env (js ''100'') 18)) (\<lambda>amount.
     bind (contract_mint env addr owner (Some amount)) (\<lambda>tx.
     bind (tx_wait env tx) (\<lambda>_.
     pushLog \<lparr>type = Success, message = js ''Minted 100 ESC to owner'',
              href = Some (txLink (hash tx))\<rparr>)))))"

definition mintToken :: "env \<Rightarrow> unit action" where
  "mintToken env =
     bind read_state (\<lambda>s.
     case token (deployed s) of
       None \<Rightarrow> ret ()
     | Some addr \<Rightarrow>
         if provider s = None \<or> addr = [] then ret ()
         else with_busy (mintToken_try env addr))"

text \<open>
  The \<^verbatim>\<open>try\<close> blocks of the last two actions are a transfer followed by the balance
  refresh. The transfer part reads the input fields as they were when the action started
  (\<open>s\<close>) and hands the signer on to the refresh.
\<close>

definition sendUSDC_transfer :: "env \<Rightarrow> app_state \<Rightarrow> Signer action" where
  "sendUSDC_transfer env s =
     bind (getSigner env) (\<lambda>signer.
     bind (lift (parseUnits env (sendAmount s) 18)) (\<lambda>amount.
     bind (sendTransaction env (sendRecipient s) amount) (\<lambda>tx.
     bind (tx_wait env tx) (\<lambda>_.
     bind (pushLog \<lparr>type = Success,
             message = js ''Sent '' @ sendAmount s @ js '' USDC to '' @
                       take 6 (sendRecipient s) @ [0x2026] @
                       drop (length (sendRecipient s) - 4) (sendRecipient s),
             href = Some (txLink (hash tx))\<rparr>) (\<lambda>_.
     bind (modify (\<lambda>s. s\<lparr>sendRecipient := []\<rparr>)) (\<lambda>_.
     bind (modify (\<lambda>s. s\<lparr>sendAmount := []\<rparr>)) (\<lambda>_.
     ret signer)))))))"

definition sendUSDC_try :: "env \<Rightarrow> app_state \<Rightarrow> unit action" where
  "sendUSDC_try env s =
     bind (sendUSDC_transfer env s) (\<lambda>signer. refreshBalance env (address signer))"

definition sendUSDC :: "env \<Rightarrow> unit action" where
  "sendUSDC env =
     bind read_state (\<lambda>s.
     if provider s = None \<or> sendRecipient s = [] \<or> sendAmount s = [] then ret ()
     else with_busy (sendUSDC_try env s))"

definition swapUSDCtoESC_transfer :: "env \<Rightarrow> app_state \<Rightarrow> jsstring \<Rightarrow> Signer action" where
  "swapUSDCtoESC_transfer env s addr =
     bind (getSigner env) (\<lambda>signer.
     bind (lift (parseUnits env (swapAmount s) 18)) (\<lambda>usdcAmount.
     bind (contract_swap env addr usdcAmount) (\<lambda>tx.
     bind (tx_wait env tx) (\<lambda>_.
     let escAmount = usdcAmount * 100000 in
     bind (lift (formatUnits env escAmount 18)) (\<lambda>shown.
     bind (pushLog \<lparr>type = Success,
             message = js ''Swapped '' @ swapAmount s @ js '' USDC to '' @ shown @ js '' ESC'',
             href = Some (txLink (hash tx))\<rparr>) (\<lambda>_.
     bind (modify (\<lambda>s. s\<lparr>swapAmount := []\<rparr>)) (\<lambda>_.
     ret signer)))))))"

definition swapUSDCtoESC_try :: "env \<Rightarrow> app_state \<Rightarrow> jsstring \<Rightarrow> unit action" where
  "swapUSDCtoESC_try env s addr =
     bind (swapUSDCtoESC_transfer env s addr) (\<lambda>signer. refreshBalance env (address signer))"

definition swapUSDCtoESC :: "env \<Rightarrow> unit action" where
  "swapUSDCtoESC env =
     bind read_state (\<lambda>s.
     case token (deployed s) of
       None \<Rightarrow> ret ()
     | Some addr \<Rightarrow>
         if provider s = None \<or> addr = [] \<or> swapAmount s = [] then ret ()
         else with_busy (swapUSDCtoESC_try env s addr))"

section \<open>The user's triggers\<close>

text \<open>
  The user reaches the functions above through the buttons and input fields of the page.
  \<open>disabled\<close> is the \<^verbatim>\<open>disabled\<close> attribute of each control as the JSX writes it (for
  the \<^verbatim>\<open>Switch to Arc\<close> button, that it is not rendered); a disabled control fires no
  event. \<open>handler\<close> is the control's \<^verbatim>\<open>onClick\<close> or \<^verbatim>\<open>onChange\<close>.
\<close>

datatype event =
    ClickConnect
  | ClickSwitchToArc
  | ClickDeployNFT
  | ClickMintNft
  | ClickDeployToken
  | ClickMintToken
  | ChangeSendRecipient jsstring
  | ClickMyself
  | ChangeSendAmount jsstring
  | ClickSend
  | ChangeSwapAmount jsstring
  | ClickSwap

fun disabled :: "app_state \<Rightarrow> event \<Rightarrow> bool" where
  "disabled s ClickConnect = (provider s \<noteq> None)"
| "disabled s ClickSwitchToArc = (provider s = None)"
| "disabled s ClickDeployNFT = (provider s = None \<or> busy s)"
| "disabled s ClickMintNft = (provider s = None \<or> \<not> truthy (nft (deployed s)) \<or> busy s)"
| "disabled s ClickDeployToken = (provider s = None \<or> busy s)"
| "disabled s ClickMintToken = (provider s = None \<or> \<not> truthy (token (deployed s)) \<or> busy s)"
| "disabled s (ChangeSendRecipient v) = (provider s = None \<or> busy s)"
| "disabled s ClickMyself = (provider s = None \<or> busy s)"
| "disabled s (ChangeSendAmount v) = (provider s = None \<or> busy s)"
| "disabled s ClickSend =
     (provider s = None \<or> sendRecipient s = [] \<or> sendAmount s = [] \<or> busy s)"
| "disabled s (ChangeSwapAmount v) =
     (provider s = None \<or> \<not> truthy (token (deployed s)) \<or> busy s)"
| "disabled s ClickSwap =
     (provider s = None \<or> \<not> truthy (token (deployed s)) \<or> swapAmount s = [] \<or> busy s)"

fun handler :: "env \<Rightarrow> event \<Rightarrow> unit action" where
  "handler env ClickConnect = connect env"
| "handler env ClickSwitchToArc =
     bind read_state (\<lambda>s.
     case provider s of
       None \<Rightarrow> ret ()
     | Some prov \<Rightarrow> bind (ensureArcNetwork env prov) (\<lambda>_. ret ()))"
| "handler env ClickDeployNFT = deployNFT env"
| "handler env ClickMintNft = mintNft env"
| "handler env ClickDeployToken = deployToken env"
| "handler env ClickMintToken = mintToken env"
| "handler env (ChangeSendRecipient v) = modify (\<lambda>s. s\<lparr>sendRecipient := v\<rparr>)"
| "handler env ClickMyself =
     bind read_state (\<lambda>s.
     if signerAddress s \<noteq> [] then modify (\<lambda>s'. s'\<lparr>sendRecipient := signerAddress s\<rparr>)
     else ret ())"
| "handler env (ChangeSendAmount v) = modify (\<lambda>s. s\<lparr>sendAmount := v\<rparr>)"
| "handler env ClickSend = sendUSDC env"
| "handler env (ChangeSwapAmount v) = modify (\<lambda>s. s\<lparr>swapAmount := v\<rparr>)"
| "handler env ClickSwap = swapUSDCtoESC env"

text \<open>
  One trigger: nothing happens on a disabled control. An error that leaves the handler is
  an unhandled rejection (\<open>Inl\<close>); the page and its state live on.
\<close>

definition trigger :: "env \<Rightarrow> event \<Rightarrow> unit action" where
  "trigger env ev \<sigma> = (if disabled (app \<sigma>) ev then (Inr (), \<sigma>) else handler env ev \<sigma>)"

text \<open>
  A session: triggers one after the other, each handler running to its end. The render
  that follows a change of \<open>provider\<close> evaluates \<^verbatim>\<open>useMemo\<close> for
  \<^verbatim>\<open>signerPromise\<close>, which calls \<^verbatim>\<open>provider.getSigner()\<close> and whose result nothing
  reads; that request is made by the render, not by a handler, and is not in the history.
\<close>

fun session :: "env \<Rightarrow> event list \<Rightarrow> sys \<Rightarrow> sys" where
  "session env [] \<sigma> = \<sigma>"
| "session env (ev # evs) \<sigma> = session env evs (snd (trigger env ev \<sigma>))"

definition initial_sys :: sys where
  "initial_sys = \<lparr>app = initial_state, history = [], alerts = [], console = []\<rparr>"

section \<open>Vocabulary of the properties\<close>

text \<open>The entry the shared \<^verbatim>\<open>catch\<close> block pushes for a thrown value.\<close>

definition error_entry :: "js_error \<Rightarrow> LogItem" where
  "error_entry e = \<lparr>type = Error, message = getErrorMessage e, href = None\<rparr>"

text \<open>
  The state in which the \<^verbatim>\<open>try\<close> block of an action starts, and the state the action
  ends in when the block throws \<open>e\<close> in state \<open>\<sigma>\<close>: one error entry more, \<open>busy\<close> cleared.
\<close>

definition entering :: "sys \<Rightarrow> sys" where
  "entering \<sigma> = \<sigma>\<lparr>app := (app \<sigma>)\<lparr>busy := True\<rparr>\<rparr>"

definition caught :: "js_error \<Rightarrow> sys \<Rightarrow> sys" where
  "caught e \<sigma> = \<sigma>\<lparr>app := (app \<sigma>)\<lparr>logs := error_entry e # logs (app \<sigma>), busy := False\<rparr>\<rparr>"

text \<open>
  What the environment answers along a deployment that starts at history \<open>h\<close>: the signer,
  the creation transaction, the wait for its confirmation. \<open>Inr c\<close>: the deployment of
  contract \<open>c\<close> reached confirmation; \<open>Inl e\<close>: it failed with \<open>e\<close> at one of the three.
\<close>

definition deployment :: "env \<Rightarrow> artifact \<Rightarrow> history \<Rightarrow> js_error + DeployedContract" where
  "deployment env art h =
     (case getSigner_result env h of
        Inl e \<Rightarrow> Inl e
      | Inr signer \<Rightarrow>
          (case deploy_result env (h @ [(GetSigner, True)]) art of
             Inl e \<Rightarrow> Inl e
           | Inr c \<Rightarrow>
               (case waitForDeployment_result env
                       (h @ [(GetSigner, True), (FactoryDeploy art, True)]) c of
                  Inl e \<Rightarrow> Inl e
                | Inr u \<Rightarrow> Inr c)))"

text \<open>The requests a confirmed deployment of \<open>c\<close> leaves in the history.\<close>

definition deployment_calls :: "artifact \<Rightarrow> DeployedContract \<Rightarrow> history" where
  "deployment_calls art c =
     [(GetSigner, True), (FactoryDeploy art, True), (WaitForDeployment (target c), True)]"

text \<open>The entry for the deployment transaction, pushed when \<^verbatim>\<open>deployTx?.hash\<close> is truthy.\<close>

definition deployment_tx_entry :: "DeployedContract \<Rightarrow> LogItem list" where
  "deployment_tx_entry c =
     (case deployTx c of
        None \<Rightarrow> []
      | Some tx \<Rightarrow>
          if hash tx \<noteq> []
          then [\<lparr>type = Info, message = js ''Deployment tx'', href = Some (txLink (hash tx))\<rparr>]
          else [])"

text \<open>
  What the environment answers along a mint of 100 tokens on the contract at \<open>addr\<close> that
  starts at history \<open>h\<close>: the signer, the owner, the mint transaction, its confirmation.
\<close>

definition token_minting :: "env \<Rightarrow> jsstring \<Rightarrow> history \<Rightarrow> js_error + TransactionResponse" where
  "token_minting env addr h =
     (case getSigner_result env h of
        Inl e \<Rightarrow> Inl e
      | Inr signer \<Rightarrow>
          (case owner_result env (h @ [(GetSigner, True)]) addr of
             Inl e \<Rightarrow> Inl e
           | Inr owner \<Rightarrow>
               (case mint_result env (h @ [(GetSigner, True), (Owner addr, True)])
                       addr owner (Some (100 * 10 ^ 18)) of
                  Inl e \<Rightarrow> Inl e
                | Inr tx \<Rightarrow>
                    (case wait_result env
                            (h @ [(GetSigner, True), (Owner addr, True),
                                  (Mint addr owner (Some (100 * 10 ^ 18)), True)]) tx of
                       Inl e \<Rightarrow> Inl e
                     | Inr u \<Rightarrow> Inr tx))))"

text \<open>A property of the state that an action keeps, whatever the environment answers.\<close>

definition stable :: "(sys \<Rightarrow> bool) \<Rightarrow> 'a action \<Rightarrow> bool" where
  "stable P m = (\<forall>\<sigma>. P \<sigma> \<longrightarrow> P (snd (m \<sigma>)))"

text \<open>The wallet requests \<^verbatim>\<open>prov.send(...)\<close>, among them all those of the reconciliation.\<close>

fun is_send :: "call \<Rightarrow> bool" where
  "is_send (Send m p) = True"
| "is_send c = False"

text \<open>Since history \<open>h\<close>, only requests other than \<^verbatim>\<open>prov.send\<close> were issued.\<close>

definition no_send_since :: "history \<Rightarrow> sys \<Rightarrow> bool" where
  "no_send_since h \<sigma> = (\<exists>hs. history \<sigma> = h @ hs \<and> list_all (\<lambda>x. \<not> is_send (fst x)) hs)"

text \<open>The six actions of the page, as triggers.\<close>

definition action_events :: "event list" where
  "action_events =
     [ClickDeployNFT, ClickDeployToken, ClickMintNft, ClickMintToken, ClickSend, ClickSwap]"

text \<open>Every recorded address was waited on until its deployment was confirmed.\<close>

definition deployed_confirmed :: "sys \<Rightarrow> bool" where
  "deployed_confirmed \<sigma> =
     ((\<forall>a. nft (deployed (app \<sigma>)) = Some a \<longrightarrow> (WaitForDeployment a, True) \<in> set (history \<sigma>)) \<and>
      (\<forall>a. token (deployed (app \<sigma>)) = Some a \<longrightarrow> (WaitForDeployment a, True) \<in> set (history \<sigma>)))"

text \<open>The three requests of the reconciliation.\<close>

definition chainId_call :: call where
  "chainId_call = Send (js ''eth_chainId'') NoParams"

definition switch_call :: call where
  "switch_call = Send (js ''wallet_switchEthereumChain'') (SwitchChain ARC_CHAIN_ID_HEX)"

definition add_call :: call where
  "add_call = Send (js ''wallet_addEthereumChain'') (AddChain ARC_PARAMS)"

text \<open>The test \<^verbatim>\<open>current?.toLowerCase?.() === ARC_CHAIN_ID_HEX\<close> of the source.\<close>

definition on_target :: "js_value \<Rightarrow> bool" where
  "on_target current = (case current of JString c \<Rightarrow> toLowerCase c = ARC_CHAIN_ID_HEX | JOther \<Rightarrow> False)"

text \<open>The source's test for the wallet's unrecognized-network error.\<close>

definition unrecognized :: "js_error \<Rightarrow> bool" where
  "unrecognized err =
     (err \<noteq> Falsy \<and> (err_code err = NumCode 4902 \<or> message_includes err (js ''Unrecognized chain'')))"

text \<open>
  Whether the environment fulfils the add-network request, and the switch request after
  it, of a reconciliation that starts at history \<open>h\<close> and whose first switch was rejected.
\<close>

definition add_accepted :: "env \<Rightarrow> history \<Rightarrow> bool" where
  "add_accepted env h =
     (\<not> isl (send_result env (h @ [(chainId_call, True), (switch_call, False)])
              (js ''wallet_addEthereumChain'') (AddChain ARC_PARAMS)))"

definition retry_accepted :: "env \<Rightarrow> history \<Rightarrow> bool" where
  "retry_accepted env h =
     (\<not> isl (send_result env (h @ [(chainId_call, True), (switch_call, False), (add_call, True)])
              (js ''wallet_switchEthereumChain'') (SwitchChain ARC_CHAIN_ID_HEX)))"

text \<open>
  The error the environment raises along a reconciliation that starts at history \<open>h\<close>,
  if any: the rejection of the read of the network id, of a switch request that is not
  answered with the unrecognized-network error, of the add-network request, or of the
  retried switch.
\<close>

definition reconcile_failure :: "env \<Rightarrow> history \<Rightarrow> js_error option" where
  "reconcile_failure env h =
     (case send_result env h (js ''eth_chainId'') NoParams of
        Inl e \<Rightarrow> Some e
      | Inr current \<Rightarrow>
          if on_target current then None
          else
            (case send_result env (h @ [(chainId_call, True)])
                    (js ''wallet_switchEthereumChain'') (SwitchChain ARC_CHAIN_ID_HEX) of
               Inr v \<Rightarrow> None
             | Inl err \<Rightarrow>
                 if unrecognized err then
                   (case send_result env (h @ [(chainId_call, True), (switch_call, False)])
                           (js ''wallet_addEthereumChain'') (AddChain ARC_PARAMS) of
                      Inl e \<Rightarrow> Some e
                    | Inr v \<Rightarrow>
                        (case send_result env
                                (h @ [(chainId_call, True), (switch_call, False), (add_call, True)])
                                (js ''wallet_switchEthereumChain'') (SwitchChain ARC_CHAIN_ID_HEX) of
                           Inl e \<Rightarrow> Some e
                         | Inr w \<Rightarrow> None))
                 else Some err))"

section \<open>The token contract\<close>

text \<open>
  \<^verbatim>\<open>EscbaseToken.sol\<close>: the rate constant and the \<^verbatim>\<open>swap\<close> function. Amounts are
  \<^verbatim>\<open>uint256\<close>; under Solidity 0.8 a multiplication that overflows reverts with
  \<^verbatim>\<open>Panic(0x11)\<close>. \<open>EscbaseToken_swap\<close> gives the amount that \<^verbatim>\<open>swap\<close> hands to
  \<^verbatim>\<open>_mint\<close> for the caller when it is paid \<open>msg_value\<close>.
\<close>

datatype sol_error = Revert string | Panic nat

definition SWAP_RATE :: "256 word" where
  "SWAP_RATE = 100000"

definition checked_mul :: "256 word \<Rightarrow> 256 word \<Rightarrow> sol_error + 256 word" where
  "checked_mul a b = (if unat a * unat b < 2 ^ 256 then Inr (a * b) else Inl (Panic 0x11))"

definition EscbaseToken_swap :: "256 word \<Rightarrow> sol_error + 256 word" where
  "EscbaseToken_swap msg_value =
     (if \<not> msg_value > 0 then Inl (Revert ''Must send USDC'')
      else checked_mul msg_value SWAP_RATE)"

section \<open>Sample environments and states\<close>

definition rpc_down :: js_error where
  "rpc_down = ErrorObject NoCode None (Some (js ''rpc down'')) (js ''Error: rpc down'')"

definition user_rejected :: js_error where
  "user_rejected = ErrorObject (NumCode 4001) None (Some (js ''User rejected the request.''))
     (js ''Error: User rejected the request.'')"

definition unrecognized_chain :: js_error where
  "unrecognized_chain = ErrorObject (NumCode 4902) None (Some (js ''Unrecognized chain ID''))
     (js ''Error: Unrecognized chain ID'')"

definition long_error :: js_error where
  "long_error = ErrorObject (NumCode (- 32603)) None (Some (replicate 300 0x78)) (replicate 300 0x78)"

text \<open>A wallet on the target network (reporting its id in upper case) where every request succeeds.\<close>

definition env_ok :: env where
  "env_ok = \<lparr>ethereum = True,
     send_result = (\<lambda>h m p. Inr (JString (js ''0x4CEF52''))),
     getSigner_result = (\<lambda>h. Inr \<lparr>address = js ''0xF00D''\<rparr>),
     getBalance_result = (\<lambda>h a. Inr 0),
     deploy_result = (\<lambda>h art. Inr \<lparr>target = js ''0xAAA'', deployTx = Some \<lparr>hash = js ''0x01''\<rparr>\<rparr>),
     waitForDeployment_result = (\<lambda>h c. Inr ()),
     owner_result = (\<lambda>h a. Inr (js ''0xF00D'')),
     mint_result = (\<lambda>h a to n. Inr \<lparr>hash = js ''0x02''\<rparr>),
     swap_result = (\<lambda>h a v. Inr \<lparr>hash = js ''0x03''\<rparr>),
     sendTransaction_result = (\<lambda>h to v. Inr \<lparr>hash = js ''0x04''\<rparr>),
     wait_result = (\<lambda>h tx. Inr ()),
     invalid_argument = (\<lambda>v. ErrorObject (StrCode (js ''INVALID_ARGUMENT''))
        (Some (js ''invalid FixedNumber string value'')) (Some (js ''invalid FixedNumber string value''))
        (js ''Error: invalid FixedNumber string value'')),
     numeric_fault = (\<lambda>fault operation. ErrorObject (StrCode (js ''NUMERIC_FAULT''))
        (Some (if fault = js ''underflow'' then js ''too many decimals for format''
               else js ''overflow''))
        (Some fault) (js ''Error: '' @ fault))\<rparr>"

text \<open>The same wallet attached to another network (chain id \<^verbatim>\<open>0x1\<close>).\<close>

definition env_off_target :: env where
  "env_off_target = env_ok\<lparr>send_result := (\<lambda>h m p. Inr (JString (js ''0x1'')))\<rparr>"

text \<open>
  A wallet on another network that does not know the target network, so that the switch
  request is rejected with code 4902, and whose user then declines to add it.
\<close>

definition env_add_rejected :: env where
  "env_add_rejected = env_ok\<lparr>send_result := (\<lambda>h m p.
     case p of
       NoParams \<Rightarrow> Inr (JString (js ''0x1''))
     | SwitchChain c \<Rightarrow> Inl unrecognized_chain
     | AddChain ps \<Rightarrow> Inl user_rejected)\<rparr>"

text \<open>The same wallet with a user who accepts: the switch succeeds once the network was added.\<close>

definition env_add_accepted :: env where
  "env_add_accepted = env_ok\<lparr>send_result := (\<lambda>h m p.
     case p of
       NoParams \<Rightarrow> Inr (JString (js ''0x1''))
     | SwitchChain c \<Rightarrow> if length h < 3 then Inl unrecognized_chain else Inr JOther
     | AddChain ps \<Rightarrow> Inr JOther)\<rparr>"

text \<open>A wallet on another network whose switch request fails with a 300-character message.\<close>

definition env_switch_fails :: env where
  "env_switch_fails = env_ok\<lparr>send_result := (\<lambda>h m p.
     case p of
       NoParams \<Rightarrow> Inr (JString (js ''0x1''))
     | SwitchChain c \<Rightarrow> Inl long_error
     | AddChain ps \<Rightarrow> Inl long_error)\<rparr>"

text \<open>A wallet whose user declines every prompt.\<close>

definition env_user_rejects :: env where
  "env_user_rejects = env_ok\<lparr>send_result := (\<lambda>h m p. Inl user_rejected)\<rparr>"

text \<open>A chain whose balance reads fail.\<close>

definition env_balance_down :: env where
  "env_balance_down = env_ok\<lparr>getBalance_result := (\<lambda>h a. Inl rpc_down)\<rparr>"

text \<open>A wallet that hands out no signer.\<close>

definition env_signer_fails :: env where
  "env_signer_fails = env_ok\<lparr>getSigner_result := (\<lambda>h. Inl rpc_down)\<rparr>"

text \<open>A chain on which deployments are reverted.\<close>

definition env_deploy_reverts :: env where
  "env_deploy_reverts = env_ok\<lparr>waitForDeployment_result := (\<lambda>h c. Inl rpc_down)\<rparr>"

text \<open>The page after a connect, with a balance of 5 shown.\<close>

definition connected_sys :: sys where
  "connected_sys = initial_sys\<lparr>app := initial_state\<lparr>provider := Some BrowserProvider,
     signerAddress := js ''0xF00D'', nativeBalance := js ''5.0''\<rparr>\<rparr>"

text \<open>The connected page with both contracts deployed and both forms filled in.\<close>

definition ready_sys :: sys where
  "ready_sys = connected_sys\<lparr>app := (app connected_sys)\<lparr>
     deployed := \<lparr>nft = Some (js ''0xAAA''), token = Some (js ''0xBBB'')\<rparr>,
     sendRecipient := js ''0xF00D'', sendAmount := js ''1'', swapAmount := js ''1''\<rparr>\<rparr>"

text \<open>The same page while an action is in flight.\<close>

definition busy_sys :: sys where
  "busy_sys = ready_sys\<lparr>app := (app ready_sys)\<lparr>busy := True\<rparr>\<rparr>"

section \<open>Running the asynchronous combinators\<close>

lemmas run_defs = ret_def throw_def bind_def try_catch_def try_finally_def lift_def
  request_def modify_def read_state_def alert_def console_error_def

lemmas call_defs = send_def getSigner_def getBalance_def factory_deploy_def
  waitForDeployment_def contract_owner_def contract_mint_def contract_swap_def
  sendTransaction_def tx_wait_def

lemmas set_defs = pushLog_def setBusy_def setNativeBalance_def log_error_def

lemmas action_defs = deployNFT_def deployNFT_try_def deployToken_def deployToken_try_def
  mintNft_def mintNft_try_def mintToken_def mintToken_try_def sendUSDC_def sendUSDC_try_def
  sendUSDC_transfer_def swapUSDCtoESC_def swapUSDCtoESC_try_def swapUSDCtoESC_transfer_def
  refreshBalance_def with_busy_def

lemma with_busy_run:
  "with_busy body \<sigma> =
     (case body (\<sigma>\<lparr>app := (app \<sigma>)\<lparr>busy := True\<rparr>\<rparr>) of
        (Inl e, \<sigma>') \<Rightarrow>
          (Inr (), \<sigma>'\<lparr>app := (app \<sigma>')\<lparr>logs := error_entry e # logs (app \<sigma>'), busy := False\<rparr>\<rparr>)
      | (Inr u, \<sigma>') \<Rightarrow> (Inr (), \<sigma>'\<lparr>app := (app \<sigma>')\<lparr>busy := False\<rparr>\<rparr>))"
  by (simp add: with_busy_def run_defs set_defs error_entry_def split: prod.splits sum.splits)

lemma with_busy_returns: "fst (with_busy body \<sigma>) = Inr ()"
  by (simp add: with_busy_run split: prod.splits sum.splits)

subsection \<open>Stability rules\<close>

lemma stable_ret: "stable P (ret x)" by (simp add: stable_def ret_def)
lemma stable_throw: "stable P (throw e)" by (simp add: stable_def throw_def)
lemma stable_lift: "stable P (lift r)" by (simp add: stable_def lift_def)
lemma stable_read_state: "stable P read_state" by (simp add: stable_def read_state_def)

lemma stable_bind: "stable P m \<Longrightarrow> (\<And>x. stable P (f x)) \<Longrightarrow> stable P (bind m f)"
  unfolding stable_def bind_def
  by (auto split: prod.splits sum.splits)

lemma stable_try_catch: "stable P m \<Longrightarrow> (\<And>e. stable P (h e)) \<Longrightarrow> stable P (try_catch m h)"
  unfolding stable_def try_catch_def
  by (auto split: prod.splits sum.splits)

lemma stable_try_finally: "stable P m \<Longrightarrow> stable P c \<Longrightarrow> stable P (try_finally m c)"
  unfolding stable_def try_finally_def
  by (auto split: prod.splits sum.splits)

lemma stable_request:
  "(\<And>\<sigma> ok. P \<sigma> \<Longrightarrow> P (\<sigma>\<lparr>history := history \<sigma> @ [(c, ok)]\<rparr>)) \<Longrightarrow> stable P (request c answer)"
  by (simp add: stable_def request_def Let_def)

lemma stable_modify:
  "(\<And>\<sigma>. P \<sigma> \<Longrightarrow> P (\<sigma>\<lparr>app := f (app \<sigma>)\<rparr>)) \<Longrightarrow> stable P (modify f)"
  by (simp add: stable_def modify_def)

lemma stable_alert:
  "(\<And>\<sigma>. P \<sigma> \<Longrightarrow> P (\<sigma>\<lparr>alerts := alerts \<sigma> @ [m]\<rparr>)) \<Longrightarrow> stable P (alert m)"
  by (simp add: stable_def alert_def)

lemma stable_console_error:
  "(\<And>\<sigma>. P \<sigma> \<Longrightarrow> P (\<sigma>\<lparr>console := console \<sigma> @ [e]\<rparr>)) \<Longrightarrow> stable P (console_error e)"
  by (simp add: stable_def console_error_def)

lemma stable_if: "(c \<Longrightarrow> stable P a) \<Longrightarrow> (\<not> c \<Longrightarrow> stable P b) \<Longrightarrow> stable P (if c then a else b)"
  by simp

lemma stable_case_option:
  "(x = None \<Longrightarrow> stable P a) \<Longrightarrow> (\<And>y. x = Some y \<Longrightarrow> stable P (b y)) \<Longrightarrow>
   stable P (case x of None \<Rightarrow> a | Some y \<Rightarrow> b y)"
  by (cases x) simp_all

lemma stable_let: "stable P (f x) \<Longrightarrow> stable P (let y = x in f y)"
  by simp

lemmas stable_intros = stable_ret stable_throw stable_lift stable_read_state stable_bind
  stable_try_catch stable_try_finally stable_request stable_modify stable_alert
  stable_console_error stable_if stable_case_option stable_let

lemma stableD: "stable P m \<Longrightarrow> P \<sigma> \<Longrightarrow> P (snd (m \<sigma>))"
  by (simp add: stable_def)

subsection \<open>The deploy try blocks\<close>

lemma deployNFT_try_ok:
  "deployment env SimpleNFTArtifact (history \<sigma>) = Inr c \<Longrightarrow>
   deployNFT_try env \<sigma> =
     (Inr (), \<sigma>\<lparr>app := (app \<sigma>)\<lparr>deployed := (deployed (app \<sigma>))\<lparr>nft := Some (target c)\<rparr>,
          logs := deployment_tx_entry c @
            \<lparr>type = Success, message = js ''Deployed SimpleNFT at '' @ target c,
              href = Some (addressLink (target c))\<rparr> # logs (app \<sigma>)\<rparr>,
        history := history \<sigma> @ deployment_calls SimpleNFTArtifact c\<rparr>)"
  by (auto simp add: deployNFT_try_def deployment_def deployment_tx_entry_def
      deployment_calls_def run_defs call_defs set_defs Let_def split: sum.splits option.splits)

lemma deployNFT_try_fail:
  "deployment env SimpleNFTArtifact (history \<sigma>) = Inl e \<Longrightarrow>
   \<exists>hs. deployNFT_try env \<sigma> = (Inl e, \<sigma>\<lparr>history := history \<sigma> @ hs\<rparr>) \<and>
        (\<forall>a. (WaitForDeployment a, True) \<notin> set hs)"
  by (auto simp add: deployNFT_try_def deployment_def run_defs call_defs Let_def split: sum.splits)

lemma deployToken_try_ok:
  "deployment env EscbaseTokenArtifact (history \<sigma>) = Inr c \<Longrightarrow>
   deployToken_try env \<sigma> =
     (Inr (), \<sigma>\<lparr>app := (app \<sigma>)\<lparr>deployed := (deployed (app \<sigma>))\<lparr>token := Some (target c)\<rparr>,
          logs := deployment_tx_entry c @
            \<lparr>type = Success, message = js ''Deployed EscbaseToken at '' @ target c,
              href = Some (addressLink (target c))\<rparr> # logs (app \<sigma>)\<rparr>,
        history := history \<sigma> @ deployment_calls EscbaseTokenArtifact c\<rparr>)"
  by (auto simp add: deployToken_try_def deployment_def deployment_tx_entry_def
      deployment_calls_def run_defs call_defs set_defs Let_def split: sum.splits option.splits)

lemma deployToken_try_fail:
  "deployment env EscbaseTokenArtifact (history \<sigma>) = Inl e \<Longrightarrow>
   \<exists>hs. deployToken_try env \<sigma> = (Inl e, \<sigma>\<lparr>history := history \<sigma> @ hs\<rparr>) \<and>
        (\<forall>a. (WaitForDeployment a, True) \<notin> set hs)"
  by (auto simp add: deployToken_try_def deployment_def run_defs call_defs Let_def split: sum.splits)

lemma deployNFT_guard:
  "provider (app \<sigma>) \<noteq> None \<Longrightarrow> deployNFT env \<sigma> = with_busy (deployNFT_try env) \<sigma>"
  by (auto simp add: deployNFT_def bind_def read_state_def)

lemma deployToken_guard:
  "provider (app \<sigma>) \<noteq> None \<Longrightarrow> deployToken env \<sigma> = with_busy (deployToken_try env) \<sigma>"
  by (auto simp add: deployToken_def bind_def read_state_def)

lemma deployNFT_ok:
  assumes "provider (app \<sigma>) \<noteq> None" and "deployment env SimpleNFTArtifact (history \<sigma>) = Inr c"
  shows "deployNFT env \<sigma> =
     (Inr (), \<sigma>\<lparr>app := (app \<sigma>)\<lparr>deployed := (deployed (app \<sigma>))\<lparr>nft := Some (target c)\<rparr>,
          logs := deployment_tx_entry c @
            \<lparr>type = Success, message = js ''Deployed SimpleNFT at '' @ target c,
              href = Some (addressLink (target c))\<rparr> # logs (app \<sigma>),
          busy := False\<rparr>,
        history := history \<sigma> @ deployment_calls SimpleNFTArtifact c\<rparr>)"
  using assms
  by (simp add: deployNFT_guard with_busy_run deployNFT_try_ok)

lemma deployToken_ok:
  assumes "provider (app \<sigma>) \<noteq> None" and "deployment env EscbaseTokenArtifact (history \<sigma>) = Inr c"
  shows "deployToken env \<sigma> =
     (Inr (), \<sigma>\<lparr>app := (app \<sigma>)\<lparr>deployed := (deployed (app \<sigma>))\<lparr>token := Some (target c)\<rparr>,
          logs := deployment_tx_entry c @
            \<lparr>type = Success, message = js ''Deployed EscbaseToken at '' @ target c,
              href = Some (addressLink (target c))\<rparr> # logs (app \<sigma>),
          busy := False\<rparr>,
        history := history \<sigma> @ deployment_calls EscbaseTokenArtifact c\<rparr>)"
  using assms
  by (simp add: deployToken_guard with_busy_run deployToken_try_ok)

lemma deployNFT_fail:
  assumes "provider (app \<sigma>) \<noteq> None" and "deployment env SimpleNFTArtifact (history \<sigma>) = Inl e"
  shows "\<exists>hs. deployNFT env \<sigma> =
     (Inr (), \<sigma>\<lparr>app := (app \<sigma>)\<lparr>logs := error_entry e # logs (app \<sigma>), busy := False\<rparr>,
        history := history \<sigma> @ hs\<rparr>) \<and> (\<forall>a. (WaitForDeployment a, True) \<notin> set hs)"
proof -
  let ?\<sigma> = "\<sigma>\<lparr>app := (app \<sigma>)\<lparr>busy := True\<rparr>\<rparr>"
  from assms(2) have "deployment env SimpleNFTArtifact (history ?\<sigma>) = Inl e" by simp
  from deployNFT_try_fail [OF this] obtain hs where
    hs: "deployNFT_try env ?\<sigma> = (Inl e, ?\<sigma>\<lparr>history := history ?\<sigma> @ hs\<rparr>)"
      "\<forall>a. (WaitForDeployment a, True) \<notin> set hs" by blast
  have "deployNFT env \<sigma> =
     (Inr (), \<sigma>\<lparr>app := (app \<sigma>)\<lparr>logs := error_entry e # logs (app \<sigma>), busy := False\<rparr>,
        history := history \<sigma> @ hs\<rparr>)"
    using hs(1) by (simp add: deployNFT_guard [OF assms(1)] with_busy_run)
  with hs(2) show ?thesis by blast
qed

lemma deployToken_fail:
  assumes "provider (app \<sigma>) \<noteq> None" and "deployment env EscbaseTokenArtifact (history \<sigma>) = Inl e"
  shows "\<exists>hs. deployToken env \<sigma> =
     (Inr (), \<sigma>\<lparr>app := (app \<sigma>)\<lparr>logs := error_entry e # logs (app \<sigma>), busy := False\<rparr>,
        history := history \<sigma> @ hs\<rparr>) \<and> (\<forall>a. (WaitForDeployment a, True) \<notin> set hs)"
proof -
  let ?\<sigma> = "\<sigma>\<lparr>app := (app \<sigma>)\<lparr>busy := True\<rparr>\<rparr>"
  from assms(2) have "deployment env EscbaseTokenArtifact (history ?\<sigma>) = Inl e" by simp
  from deployToken_try_fail [OF this] obtain hs where
    hs: "deployToken_try env ?\<sigma> = (Inl e, ?\<sigma>\<lparr>history := history ?\<sigma> @ hs\<rparr>)"
      "\<forall>a. (WaitForDeployment a, True) \<notin> set hs" by blast
  have "deployToken env \<sigma> =
     (Inr (), \<sigma>\<lparr>app := (app \<sigma>)\<lparr>logs := error_entry e # logs (app \<sigma>), busy := False\<rparr>,
        history := history \<sigma> @ hs\<rparr>)"
    using hs(1) by (simp add: deployToken_guard [OF assms(1)] with_busy_run)
  with hs(2) show ?thesis by blast
qed

lemma no_provider_noop:
  assumes "provider (app \<sigma>) = None"
  shows "deployNFT env \<sigma> = (Inr (), \<sigma>)" and "deployToken env \<sigma> = (Inr (), \<sigma>)"
    and "mintNft env \<sigma> = (Inr (), \<sigma>)" and "mintToken env \<sigma> = (Inr (), \<sigma>)"
    and "sendUSDC env \<sigma> = (Inr (), \<sigma>)" and "swapUSDCtoESC env \<sigma> = (Inr (), \<sigma>)"
  using assms
  by (simp_all add: deployNFT_def deployToken_def mintNft_def mintToken_def sendUSDC_def
      swapUSDCtoESC_def bind_def read_state_def ret_def split: option.splits)

section \<open>The log after a deployment\<close>


text \<open>Facts about the sample page and environment.\<close>

lemma connected_provider: "provider (app connected_sys) = Some BrowserProvider"
  by (simp add: connected_sys_def initial_sys_def)

lemma connected_history: "history connected_sys = []"
  by (simp add: connected_sys_def initial_sys_def)

lemma connected_logs: "logs (app connected_sys) = []"
  by (simp add: connected_sys_def initial_sys_def initial_state_def)

lemma deployment_env_ok:
  "deployment env_ok art h = Inr \<lparr>target = js ''0xAAA'', deployTx = Some \<lparr>hash = js ''0x01''\<rparr>\<rparr>"
  by (simp add: deployment_def env_ok_def)



section \<open>Decimal digits\<close>

lemma BigInt_digits_snoc: "BigInt_digits (s @ [c]) = 10 * BigInt_digits s + digit_val c"
  by (simp add: BigInt_digits_def)

lemma BigInt_digits_append_zeros: "BigInt_digits (s @ replicate n 0x30) = BigInt_digits s * 10 ^ n"
proof (induction n)
  case 0
  then show ?case by simp
next
  case (Suc n)
  have "s @ replicate (Suc n) 0x30 = (s @ replicate n 0x30) @ [0x30]"
    by (simp add: replicate_append_same)
  then show ?case
    using Suc by (simp only: BigInt_digits_snoc) (simp add: digit_val_def)
qed

lemma pad_decimal_shape:
  "\<exists>k. pad_decimal d s = s @ replicate k 0x30 \<and> d \<le> length s + k"
proof (induction d s rule: pad_decimal.induct)
  case (1 d str)
  show ?case
  proof (cases "length str < d")
    case True
    from 1 [OF True] obtain k where
      k: "pad_decimal d (str @ Zeros) = (str @ Zeros) @ replicate k 0x30" "d \<le> length (str @ Zeros) + k"
      by blast
    have "pad_decimal d str = str @ replicate (128 + k) 0x30"
      using True k(1) by (simp add: pad_decimal.simps [of d str] Zeros_def replicate_add)
    moreover have "d \<le> length str + (128 + k)"
      using k(2) by (simp add: Zeros_def)
    ultimately show ?thesis by blast
  next
    case False
    then have "pad_decimal d str = str @ replicate 0 0x30" "d \<le> length str + 0"
      by (simp_all add: pad_decimal.simps [of d str])
    then show ?thesis by blast
  qed
qed

lemma pad_decimal_take:
  assumes "length s \<le> d"
  shows "take d (pad_decimal d s) = s @ replicate (d - length s) 0x30"
proof -
  obtain k where k: "pad_decimal d s = s @ replicate k 0x30" "d \<le> length s + k"
    using pad_decimal_shape by blast
  then show ?thesis using assms by (auto simp add: min_def)
qed

lemma pad_decimal_drop:
  assumes "length s \<le> d"
  shows "list_all (\<lambda>c. c = 0x30) (drop d (pad_decimal d s))"
proof -
  obtain k where k: "pad_decimal d s = s @ replicate k 0x30" "d \<le> length s + k"
    using pad_decimal_shape by blast
  then show ?thesis using assms by (simp add: list_all_iff)
qed

lemma parseUnits_100: "parseUnits env (js ''100'') 18 = Inr (100 * 10 ^ 18)"
proof -
  have d: "takeWhile is_digit (js ''100'') = js ''100''" "dropWhile is_digit (js ''100'') = []"
    by (simp_all add: js_def is_digit_def)
  have b: "BigInt_digits (js ''100'') = 100"
    by (simp add: js_def BigInt_digits_def digit_val_def)
  have v: "BigInt_digits (js ''100'' @ replicate 18 0x30) = 100 * 10 ^ 18"
    by (simp only: BigInt_digits_append_zeros b)
  have n: "hd (js ''100'') \<noteq> 0x2D" "js ''100'' \<noteq> []"
    by (simp_all add: js_def)
  have c: "checkValue 100000000000000000000"
    by (simp add: checkValue_def)
  have p: "take 18 (pad_decimal 18 []) = replicate 18 0x30"
    "list_all (\<lambda>c. c = 0x30) (drop 18 (pad_decimal 18 []))"
    using pad_decimal_take [of "[]" 18] pad_decimal_drop [of "[]" 18] by simp_all
  show ?thesis
    unfolding parseUnits_def Let_def
    by (simp add: n d p v c)
qed


lemma parseUnits_whole:
  assumes "s \<noteq> []" and "list_all is_digit s"
    and "checkValue (int (BigInt_digits s) * 10 ^ 18)"
  shows "parseUnits env s 18 = Inr (int (BigInt_digits s) * 10 ^ 18)"
proof -
  have d: "takeWhile is_digit s = s" "dropWhile is_digit s = []"
    using assms(2) by (simp_all add: list_all_iff)
  have "is_digit (hd s)" using assms(1,2) by (cases s) simp_all
  then have n: "hd s \<noteq> 0x2D" by (auto simp add: is_digit_def)
  have v: "int (BigInt_digits (s @ replicate 18 0x30)) = int (BigInt_digits s) * 10 ^ 18"
    by (simp only: BigInt_digits_append_zeros) simp
  have p: "take 18 (pad_decimal 18 []) = replicate 18 0x30"
    "list_all (\<lambda>c. c = 0x30) (drop 18 (pad_decimal 18 []))"
    using pad_decimal_take [of "[]" 18] pad_decimal_drop [of "[]" 18] by simp_all
  show ?thesis
    unfolding parseUnits_def Let_def
    using assms(1,3) by (simp add: n d p v del: of_nat_mult of_nat_power)
qed

lemma parseUnits_1: "parseUnits env (js ''1'') 18 = Inr (10 ^ 18)"
  using parseUnits_whole [of "js ''1''" env]
  by (simp add: js_def is_digit_def BigInt_digits_def digit_val_def checkValue_def)

section \<open>The log after a mint that follows a deployment\<close>

lemma mintToken_guard:
  "provider (app \<sigma>) \<noteq> None \<Longrightarrow> token (deployed (app \<sigma>)) = Some addr \<Longrightarrow> addr \<noteq> [] \<Longrightarrow>
   mintToken env \<sigma> = with_busy (mintToken_try env addr) \<sigma>"
  by (auto simp add: mintToken_def bind_def read_state_def)

lemma mintToken_try_ok:
  "token_minting env addr (history \<sigma>) = Inr tx \<Longrightarrow>
   fst (mintToken_try env addr \<sigma>) = Inr () \<and>
   app (snd (mintToken_try env addr \<sigma>)) =
     (app \<sigma>)\<lparr>logs := \<lparr>type = Success, message = js ''Minted 100 ESC to owner'',
                    href = Some (txLink (hash tx))\<rparr> # logs (app \<sigma>)\<rparr>"
  by (auto simp add: mintToken_try_def token_minting_def parseUnits_100 run_defs call_defs
      set_defs Let_def split: sum.splits)

lemma mintToken_ok:
  assumes "provider (app \<sigma>) \<noteq> None" and "token (deployed (app \<sigma>)) = Some addr" and "addr \<noteq> []"
    and "token_minting env addr (history \<sigma>) = Inr tx"
  shows "logs (app (snd (mintToken env \<sigma>))) =
     \<lparr>type = Success, message = js ''Minted 100 ESC to owner'',
       href = Some (txLink (hash tx))\<rparr> # logs (app \<sigma>)"
proof -
  let ?\<sigma> = "\<sigma>\<lparr>app := (app \<sigma>)\<lparr>busy := True\<rparr>\<rparr>"
  from assms(4) have "token_minting env addr (history ?\<sigma>) = Inr tx" by simp
  from mintToken_try_ok [OF this] show ?thesis
    by (cases "mintToken_try env addr ?\<sigma>")
      (simp add: mintToken_guard [OF assms(1-3)] with_busy_run)
qed

text \<open>
  Claim C4, as amended. In the run where deploy Token succeeds and mint Token then
  succeeds, the head of the activity log is the mint success entry. Below it come the
  entries of the deployment, most recent first: the info entry of the deployment
  transaction when that transaction has a hash, then the deploy success entry. The deploy
  success entry is thus the second entry only for a deployment whose transaction has no
  hash, and the third entry otherwise.
\<close>

theorem mint_after_deploy_log_order:
  assumes "provider (app \<sigma>) \<noteq> None"
    and "deployment env EscbaseTokenArtifact (history \<sigma>) = Inr c"
    and "target c \<noteq> []"
    and "token_minting env (target c) (history (snd (deployToken env \<sigma>))) = Inr tx"
  shows "logs (app (snd (mintToken env (snd (deployToken env \<sigma>))))) =
     \<lparr>type = Success, message = js ''Minted 100 ESC to owner'',
       href = Some (txLink (hash tx))\<rparr> #
     deployment_tx_entry c @
     \<lparr>type = Success, message = js ''Deployed EscbaseToken at '' @ target c,
       href = Some (addressLink (target c))\<rparr> # logs (app \<sigma>)"
proof -
  let ?\<sigma>1 = "snd (deployToken env \<sigma>)"
  have d: "deployToken env \<sigma> =
     (Inr (), \<sigma>\<lparr>app := (app \<sigma>)\<lparr>deployed := (deployed (app \<sigma>))\<lparr>token := Some (target c)\<rparr>,
          logs := deployment_tx_entry c @
            \<lparr>type = Success, message = js ''Deployed EscbaseToken at '' @ target c,
              href = Some (addressLink (target c))\<rparr> # logs (app \<sigma>),
          busy := False\<rparr>,
        history := history \<sigma> @ deployment_calls EscbaseTokenArtifact c\<rparr>)"
    by (rule deployToken_ok [OF assms(1,2)])
  have p: "provider (app ?\<sigma>1) \<noteq> None" using assms(1) by (simp add: d)
  have t: "token (deployed (app ?\<sigma>1)) = Some (target c)" by (simp add: d)
  have "logs (app (snd (mintToken env ?\<sigma>1))) =
     \<lparr>type = Success, message = js ''Minted 100 ESC to owner'',
       href = Some (txLink (hash tx))\<rparr> # logs (app ?\<sigma>1)"
    by (rule mintToken_ok [OF p t assms(3,4)])
  then show ?thesis by (simp add: d)
qed

lemma token_minting_env_ok: "token_minting env_ok addr h = Inr \<lparr>hash = js ''0x02''\<rparr>"
  by (simp add: token_minting_def env_ok_def)

lemma address_nonempty: "js ''0xAAA'' \<noteq> []"
  by (simp add: js_def)

theorem mint_after_deploy_log_order_witness:
  "logs (app (snd (mintToken env_ok (snd (deployToken env_ok connected_sys))))) =
     [\<lparr>type = Success, message = js ''Minted 100 ESC to owner'',
        href = Some (txLink (js ''0x02''))\<rparr>,
      \<lparr>type = Info, message = js ''Deployment tx'', href = Some (txLink (js ''0x01''))\<rparr>,
      \<lparr>type = Success, message = js ''Deployed EscbaseToken at '' @ js ''0xAAA'',
        href = Some (addressLink (js ''0xAAA''))\<rparr>]"
  using mint_after_deploy_log_order
    [of connected_sys env_ok "\<lparr>target = js ''0xAAA'', deployTx = Some \<lparr>hash = js ''0x01''\<rparr>\<rparr>"
        "\<lparr>hash = js ''0x02''\<rparr>"]
  by (simp add: connected_provider connected_logs deployment_env_ok token_minting_env_ok
      address_nonempty deployment_tx_entry_def) (simp add: js_def)

text \<open>
  The claim as it stands asks for the deploy success entry in second place. On the sample
  wallet both steps succeed and the second entry is the info entry instead.
\<close>

theorem second_entry_after_mint_is_tx_entry:
  "deployment env_ok EscbaseTokenArtifact (history connected_sys) =
     Inr \<lparr>target = js ''0xAAA'', deployTx = Some \<lparr>hash = js ''0x01''\<rparr>\<rparr> \<and>
   token_minting env_ok (js ''0xAAA'') (history (snd (deployToken env_ok connected_sys))) =
     Inr \<lparr>hash = js ''0x02''\<rparr> \<and>
   hd (logs (app (snd (mintToken env_ok (snd (deployToken env_ok connected_sys)))))) =
     \<lparr>type = Success, message = js ''Minted 100 ESC to owner'',
       href = Some (txLink (js ''0x02''))\<rparr> \<and>
   logs (app (snd (mintToken env_ok (snd (deployToken env_ok connected_sys))))) ! 1 =
     \<lparr>type = Info, message = js ''Deployment tx'', href = Some (txLink (js ''0x01''))\<rparr> \<and>
   logs (app (snd (mintToken env_ok (snd (deployToken env_ok connected_sys))))) ! 1 \<noteq>
     \<lparr>type = Success, message = js ''Deployed EscbaseToken at '' @ js ''0xAAA'',
       href = Some (addressLink (js ''0xAAA''))\<rparr>"
proof -
  let ?c = "\<lparr>target = js ''0xAAA'', deployTx = Some \<lparr>hash = js ''0x01''\<rparr>\<rparr>"
  let ?\<sigma>1 = "snd (deployToken env_ok connected_sys)"
  have d: "deployToken env_ok connected_sys =
     (Inr (), connected_sys\<lparr>app := (app connected_sys)\<lparr>
          deployed := (deployed (app connected_sys))\<lparr>token := Some (target ?c)\<rparr>,
          logs := deployment_tx_entry ?c @
            \<lparr>type = Success, message = js ''Deployed EscbaseToken at '' @ target ?c,
              href = Some (addressLink (target ?c))\<rparr> # logs (app connected_sys),
          busy := False\<rparr>,
        history := history connected_sys @ deployment_calls EscbaseTokenArtifact ?c\<rparr>)"
    by (rule deployToken_ok) (simp_all add: connected_provider deployment_env_ok)
  have p: "provider (app ?\<sigma>1) \<noteq> None" by (simp add: d connected_provider)
  have t: "token (deployed (app ?\<sigma>1)) = Some (js ''0xAAA'')" by (simp add: d)
  have m: "logs (app (snd (mintToken env_ok ?\<sigma>1))) =
     \<lparr>type = Success, message = js ''Minted 100 ESC to owner'',
       href = Some (txLink (js ''0x02''))\<rparr> # logs (app ?\<sigma>1)"
    using mintToken_ok [OF p t address_nonempty token_minting_env_ok] by simp
  show ?thesis
    by (simp add: m deployment_env_ok token_minting_env_ok)
      (simp add: d deployment_tx_entry_def connected_logs js_def)
qed

section \<open>Triggers while an action is in flight\<close>

text \<open>
  Claim C2. For each of the six actions (deploy NFT, deploy Token, mint NFT, mint Token,
  send, swap), a trigger while \<open>busy\<close> is true is a no-op: the handler does not run, so
  the activity log keeps its length, no request is issued, and the state, which has no
  queue of pending triggers, is the one before. The gate is the \<^verbatim>\<open>disabled\<close> attribute
  of the action's button; while an action runs, its \<^verbatim>\<open>try\<close> block sees \<open>busy\<close> set
  (lemma \<open>with_busy_run\<close>).
\<close>

theorem busy_trigger_is_noop:
  assumes "busy (app \<sigma>)" and "ev \<in> set action_events"
  shows "trigger env ev \<sigma> = (Inr (), \<sigma>) \<and>
         length (logs (app (snd (trigger env ev \<sigma>)))) = length (logs (app \<sigma>)) \<and>
         history (snd (trigger env ev \<sigma>)) = history \<sigma>"
  using assms by (auto simp add: trigger_def action_events_def)

theorem busy_trigger_is_noop_witness:
  "busy (app busy_sys) \<and>
   trigger env_ok ClickDeployNFT busy_sys = (Inr (), busy_sys) \<and>
   trigger env_ok ClickDeployToken busy_sys = (Inr (), busy_sys) \<and>
   trigger env_ok ClickMintNft busy_sys = (Inr (), busy_sys) \<and>
   trigger env_ok ClickMintToken busy_sys = (Inr (), busy_sys) \<and>
   trigger env_ok ClickSend busy_sys = (Inr (), busy_sys) \<and>
   trigger env_ok ClickSwap busy_sys = (Inr (), busy_sys)"
proof -
  have b: "busy (app busy_sys)" by (simp add: busy_sys_def)
  show ?thesis
    using b
      busy_trigger_is_noop [OF b, of ClickDeployNFT env_ok]
      busy_trigger_is_noop [OF b, of ClickDeployToken env_ok]
      busy_trigger_is_noop [OF b, of ClickMintNft env_ok]
      busy_trigger_is_noop [OF b, of ClickMintToken env_ok]
      busy_trigger_is_noop [OF b, of ClickSend env_ok]
      busy_trigger_is_noop [OF b, of ClickSwap env_ok]
    by (simp add: action_events_def)
qed

section \<open>Network reconciliation\<close>

lemma ensureArcNetwork_on_target:
  assumes "send_result env (history \<sigma>) (js ''eth_chainId'') NoParams = Inr current"
    and "on_target current"
  shows "ensureArcNetwork env prov \<sigma> = (Inr True, \<sigma>\<lparr>history := history \<sigma> @ [(chainId_call, True)]\<rparr>)"
  using assms
  by (simp add: ensureArcNetwork_def ensureArcNetwork_try_def on_target_def chainId_call_def run_defs send_def)

lemma ensureArcNetwork_unrecognized:
  assumes "send_result env (history \<sigma>) (js ''eth_chainId'') NoParams = Inr current"
    and "\<not> on_target current"
    and "send_result env (history \<sigma> @ [(chainId_call, True)])
           (js ''wallet_switchEthereumChain'') (SwitchChain ARC_CHAIN_ID_HEX) = Inl err"
    and "unrecognized err"
  shows "fst (ensureArcNetwork env prov \<sigma>) = Inr (add_accepted env (history \<sigma>) \<and> retry_accepted env (history \<sigma>)) \<and>
         history (snd (ensureArcNetwork env prov \<sigma>)) =
           history \<sigma> @ [(chainId_call, True), (switch_call, False),
                         (add_call, add_accepted env (history \<sigma>))] @
           (if add_accepted env (history \<sigma>) then [(switch_call, retry_accepted env (history \<sigma>))] else [])"
  using assms
  by (auto simp add: ensureArcNetwork_def ensureArcNetwork_try_def on_target_def unrecognized_def add_accepted_def
      retry_accepted_def chainId_call_def switch_call_def add_call_def run_defs send_def
      set_defs Let_def split: sum.splits)


lemma env_ok_chainId:
  "send_result env_ok h (js ''eth_chainId'') NoParams = Inr (JString (js ''0x4CEF52''))"
  by (simp add: env_ok_def)

lemma upper_case_on_target: "on_target (JString (js ''0x4CEF52''))"
  by (simp add: on_target_def toLowerCase_def ARC_CHAIN_ID_HEX_def js_def)

lemma off_target: "\<not> on_target (JString (js ''0x1''))"
  by (simp add: on_target_def toLowerCase_def ARC_CHAIN_ID_HEX_def js_def)

lemma initial_history: "history initial_sys = []"
  by (simp add: initial_sys_def)

text \<open>
  Claim C6, as amended. When the network id the wallet reports equals the target id up to
  the case of its letters, reconciliation returns success after exactly one request, the
  \<^verbatim>\<open>eth_chainId\<close> read that obtained the id: no switch-network and no add-network request
  is issued, and the state of the page (its log included) is unchanged.
\<close>

theorem reconcile_on_target_reads_only:
  assumes "send_result env (history \<sigma>) (js ''eth_chainId'') NoParams = Inr (JString c)"
    and "toLowerCase c = ARC_CHAIN_ID_HEX"
  shows "ensureArcNetwork env prov \<sigma> =
           (Inr True, \<sigma>\<lparr>history := history \<sigma> @ [(Send (js ''eth_chainId'') NoParams, True)]\<rparr>)"
  using ensureArcNetwork_on_target [of env \<sigma> "JString c" prov] assms
  by (simp add: on_target_def chainId_call_def)

theorem reconcile_on_target_reads_only_witness:
  "toLowerCase (js ''0x4CEF52'') = ARC_CHAIN_ID_HEX \<and>
   ensureArcNetwork env_ok BrowserProvider initial_sys =
     (Inr True, initial_sys\<lparr>history := [(Send (js ''eth_chainId'') NoParams, True)]\<rparr>)"
proof -
  have l: "toLowerCase (js ''0x4CEF52'') = ARC_CHAIN_ID_HEX"
    by (simp add: toLowerCase_def ARC_CHAIN_ID_HEX_def js_def)
  show ?thesis
    using l reconcile_on_target_reads_only [where \<sigma> = initial_sys and prov = BrowserProvider, OF env_ok_chainId l]
    by (simp add: initial_history)
qed

text \<open>
  The claim as it stands counts zero requests; the read of the current id is itself a
  request to the wallet.
\<close>

theorem reconcile_on_target_issues_a_request:
  "send_result env_ok (history initial_sys) (js ''eth_chainId'') NoParams =
     Inr (JString (js ''0x4CEF52'')) \<and>
   toLowerCase (js ''0x4CEF52'') = ARC_CHAIN_ID_HEX \<and>
   fst (ensureArcNetwork env_ok BrowserProvider initial_sys) = Inr True \<and>
   history (snd (ensureArcNetwork env_ok BrowserProvider initial_sys)) =
     [(Send (js ''eth_chainId'') NoParams, True)] \<and>
   history (snd (ensureArcNetwork env_ok BrowserProvider initial_sys)) \<noteq> []"
  using ensureArcNetwork_on_target [where \<sigma> = initial_sys and prov = BrowserProvider, OF env_ok_chainId upper_case_on_target]
    upper_case_on_target
  by (simp add: initial_history chainId_call_def env_ok_chainId on_target_def)

text \<open>
  Claim C7, as amended. When the wallet is on another network and rejects the switch
  request with its unrecognized-network error, reconciliation issues exactly one
  add-network request, carrying the full descriptor of the target network. If that request
  is fulfilled, exactly one retry of the switch request follows and reconciliation
  succeeds exactly if the retry does; if it is rejected, no retry is issued and
  reconciliation fails. In neither case is any further request issued.
\<close>

theorem unrecognized_network_add_then_retry:
  assumes "send_result env (history \<sigma>) (js ''eth_chainId'') NoParams = Inr current"
    and "\<not> on_target current"
    and "send_result env (history \<sigma> @ [(chainId_call, True)])
           (js ''wallet_switchEthereumChain'') (SwitchChain ARC_CHAIN_ID_HEX) = Inl err"
    and "unrecognized err"
  shows "history (snd (ensureArcNetwork env prov \<sigma>)) =
           history \<sigma> @
           [(chainId_call, True), (switch_call, False),
            (Send (js ''wallet_addEthereumChain'') (AddChain ARC_PARAMS), add_accepted env (history \<sigma>))] @
           (if add_accepted env (history \<sigma>)
            then [(switch_call, retry_accepted env (history \<sigma>))] else []) \<and>
         fst (ensureArcNetwork env prov \<sigma>) =
           Inr (add_accepted env (history \<sigma>) \<and> retry_accepted env (history \<sigma>)) \<and>
         ARC_PARAMS = \<lparr>chainId = js ''0x4cef52'', chainName = js ''Arc Testnet'',
           nativeCurrency = \<lparr>name = js ''USDC'', symbol = js ''USDC'', decimals = 18\<rparr>,
           rpcUrls = [js ''https://rpc.testnet.arc.network''],
           blockExplorerUrls = [js ''https://testnet.arcscan.app'']\<rparr>"
  using ensureArcNetwork_unrecognized [OF assms, of prov]
  by (simp add: add_call_def ARC_PARAMS_def ARC_CHAIN_ID_HEX_def)

lemma unrecognized_chain_is_unrecognized: "unrecognized unrecognized_chain"
  by (simp add: unrecognized_def unrecognized_chain_def)

lemma env_add_accepted_answers:
  "send_result env_add_accepted h (js ''eth_chainId'') NoParams = Inr (JString (js ''0x1''))"
  "send_result env_add_accepted [(chainId_call, True)] m (SwitchChain c) = Inl unrecognized_chain"
  "add_accepted env_add_accepted []"
  "retry_accepted env_add_accepted []"
  by (simp_all add: env_add_accepted_def env_ok_def add_accepted_def retry_accepted_def)

lemma env_add_rejected_answers:
  "send_result env_add_rejected h (js ''eth_chainId'') NoParams = Inr (JString (js ''0x1''))"
  "send_result env_add_rejected h m (SwitchChain c) = Inl unrecognized_chain"
  "\<not> add_accepted env_add_rejected h"
  by (simp_all add: env_add_rejected_def env_ok_def add_accepted_def)

theorem unrecognized_network_add_then_retry_witness:
  "\<not> on_target (JString (js ''0x1'')) \<and> unrecognized unrecognized_chain \<and>
   history (snd (ensureArcNetwork env_add_accepted BrowserProvider initial_sys)) =
     [(chainId_call, True), (switch_call, False),
      (Send (js ''wallet_addEthereumChain'') (AddChain ARC_PARAMS), True), (switch_call, True)] \<and>
   fst (ensureArcNetwork env_add_accepted BrowserProvider initial_sys) = Inr True"
  using unrecognized_network_add_then_retry
    [of env_add_accepted initial_sys "JString (js ''0x1'')" unrecognized_chain BrowserProvider]
    off_target unrecognized_chain_is_unrecognized
  by (simp add: initial_history env_add_accepted_answers)

text \<open>
  The claim as it stands promises the retry in every case. When the user declines to add
  the network, the add-network request is the last one.
\<close>

theorem add_rejected_no_retry:
  "send_result env_add_rejected [(chainId_call, True)]
     (js ''wallet_switchEthereumChain'') (SwitchChain ARC_CHAIN_ID_HEX) = Inl unrecognized_chain \<and>
   err_code unrecognized_chain = NumCode 4902 \<and>
   history (snd (ensureArcNetwork env_add_rejected BrowserProvider initial_sys)) =
     [(chainId_call, True), (switch_call, False), (add_call, False)] \<and>
   fst (ensureArcNetwork env_add_rejected BrowserProvider initial_sys) = Inr False"
  using ensureArcNetwork_unrecognized
    [of env_add_rejected initial_sys "JString (js ''0x1'')" unrecognized_chain BrowserProvider]
    off_target unrecognized_chain_is_unrecognized
  by (simp add: initial_history env_add_rejected_answers) (simp add: unrecognized_chain_def)

section \<open>Recorded contract addresses\<close>

lemma confirmed_connect: "stable deployed_confirmed (connect env)"
  unfolding connect_def ensureArcNetwork_def ensureArcNetwork_try_def refreshBalance_def call_defs set_defs Let_def
  by (intro stable_intros; simp add: deployed_confirmed_def)

lemma confirmed_ensureArcNetwork: "stable deployed_confirmed (ensureArcNetwork env prov)"
  unfolding ensureArcNetwork_def ensureArcNetwork_try_def call_defs set_defs
  by (intro stable_intros; simp add: deployed_confirmed_def)

lemma confirmed_mintNft: "stable deployed_confirmed (mintNft env)"
  unfolding action_defs call_defs set_defs
  by (intro stable_intros; simp add: deployed_confirmed_def)

lemma confirmed_mintToken: "stable deployed_confirmed (mintToken env)"
  unfolding action_defs call_defs set_defs
  by (intro stable_intros; simp add: deployed_confirmed_def)

lemma confirmed_sendUSDC: "stable deployed_confirmed (sendUSDC env)"
  unfolding action_defs call_defs set_defs
  by (intro stable_intros; simp add: deployed_confirmed_def)

lemma confirmed_swapUSDCtoESC: "stable deployed_confirmed (swapUSDCtoESC env)"
  unfolding action_defs call_defs set_defs
  by (intro stable_intros; simp add: deployed_confirmed_def)

lemma confirmed_deployNFT: "stable deployed_confirmed (deployNFT env)"
  unfolding stable_def
proof (intro allI impI)
  fix \<sigma> assume dc: "deployed_confirmed \<sigma>"
  show "deployed_confirmed (snd (deployNFT env \<sigma>))"
  proof (cases "provider (app \<sigma>) = None")
    case True
    then show ?thesis using dc by (simp add: no_provider_noop)
  next
    case False
    show ?thesis
    proof (cases "deployment env SimpleNFTArtifact (history \<sigma>)")
      case (Inl e)
      from deployNFT_fail [OF False Inl] show ?thesis
        using dc by (auto simp add: deployed_confirmed_def)
    next
      case (Inr c)
      from deployNFT_ok [OF False Inr] show ?thesis
        using dc by (auto simp add: deployed_confirmed_def deployment_calls_def)
    qed
  qed
qed

lemma confirmed_deployToken: "stable deployed_confirmed (deployToken env)"
  unfolding stable_def
proof (intro allI impI)
  fix \<sigma> assume dc: "deployed_confirmed \<sigma>"
  show "deployed_confirmed (snd (deployToken env \<sigma>))"
  proof (cases "provider (app \<sigma>) = None")
    case True
    then show ?thesis using dc by (simp add: no_provider_noop)
  next
    case False
    show ?thesis
    proof (cases "deployment env EscbaseTokenArtifact (history \<sigma>)")
      case (Inl e)
      from deployToken_fail [OF False Inl] show ?thesis
        using dc by (auto simp add: deployed_confirmed_def)
    next
      case (Inr c)
      from deployToken_ok [OF False Inr] show ?thesis
        using dc by (auto simp add: deployed_confirmed_def deployment_calls_def)
    qed
  qed
qed

lemma confirmed_handler: "stable deployed_confirmed (handler env ev)"
proof (cases ev)
  case ClickSwitchToArc
  then show ?thesis
    by (auto intro!: stable_intros confirmed_ensureArcNetwork)
next
  case ClickMyself
  then show ?thesis
    by (auto intro!: stable_intros simp add: deployed_confirmed_def)
qed (simp_all add: confirmed_connect confirmed_deployNFT confirmed_deployToken confirmed_mintNft
      confirmed_mintToken confirmed_sendUSDC confirmed_swapUSDCtoESC,
     (rule stable_modify, simp add: deployed_confirmed_def)+)

lemma confirmed_trigger: "deployed_confirmed \<sigma> \<Longrightarrow> deployed_confirmed (snd (trigger env ev \<sigma>))"
  using confirmed_handler [of env ev] by (simp add: trigger_def stable_def)

lemma confirmed_session: "deployed_confirmed \<sigma> \<Longrightarrow> deployed_confirmed (session env evs \<sigma>)"
  by (induction evs arbitrary: \<sigma>) (simp_all add: confirmed_trigger)

lemma confirmed_initial: "deployed_confirmed initial_sys"
  by (simp add: deployed_confirmed_def initial_sys_def initial_state_def)


text \<open>
  Claim C3. For each contract kind, the deploy action writes the kind's entry of the
  deployed addresses if and only if the deployment reached confirmation. When it did, the
  entry is the address of the contract whose confirmation was awaited. When the action
  does not run (no provider) or the deployment fails at the signer, at the submission or
  at the wait for confirmation, the deployed addresses are as before (an unset entry stays
  unset) and no fulfilled wait is among the requests of the action. Throughout a session
  that starts with no entry, every entry is an address whose deployment was awaited to
  confirmation before it was recorded.
\<close>

theorem deployed_set_iff_confirmed:
  "(provider (app \<sigma>) \<noteq> None \<and> deployment env SimpleNFTArtifact (history \<sigma>) = Inr c \<longrightarrow>
      deployed (app (snd (deployNFT env \<sigma>))) = (deployed (app \<sigma>))\<lparr>nft := Some (target c)\<rparr> \<and>
      history (snd (deployNFT env \<sigma>)) = history \<sigma> @ deployment_calls SimpleNFTArtifact c) \<and>
   (provider (app \<sigma>) = None \<or> deployment env SimpleNFTArtifact (history \<sigma>) = Inl e \<longrightarrow>
      deployed (app (snd (deployNFT env \<sigma>))) = deployed (app \<sigma>) \<and>
      (\<forall>a. (WaitForDeployment a, True) \<notin>
           set (drop (length (history \<sigma>)) (history (snd (deployNFT env \<sigma>)))))) \<and>
   (provider (app \<sigma>) \<noteq> None \<and> deployment env EscbaseTokenArtifact (history \<sigma>) = Inr c \<longrightarrow>
      deployed (app (snd (deployToken env \<sigma>))) = (deployed (app \<sigma>))\<lparr>token := Some (target c)\<rparr> \<and>
      history (snd (deployToken env \<sigma>)) = history \<sigma> @ deployment_calls EscbaseTokenArtifact c) \<and>
   (provider (app \<sigma>) = None \<or> deployment env EscbaseTokenArtifact (history \<sigma>) = Inl e \<longrightarrow>
      deployed (app (snd (deployToken env \<sigma>))) = deployed (app \<sigma>) \<and>
      (\<forall>a. (WaitForDeployment a, True) \<notin>
           set (drop (length (history \<sigma>)) (history (snd (deployToken env \<sigma>)))))) \<and>
   deployed_confirmed initial_sys \<and>
   (deployed_confirmed \<sigma> \<longrightarrow> deployed_confirmed (session env evs \<sigma>))"
proof -
  have nft_ok: "deployed (app (snd (deployNFT env \<sigma>))) = (deployed (app \<sigma>))\<lparr>nft := Some (target c)\<rparr> \<and>
      history (snd (deployNFT env \<sigma>)) = history \<sigma> @ deployment_calls SimpleNFTArtifact c"
    if "provider (app \<sigma>) \<noteq> None" "deployment env SimpleNFTArtifact (history \<sigma>) = Inr c"
    using deployNFT_ok [OF that] by simp
  have nft_fail: "deployed (app (snd (deployNFT env \<sigma>))) = deployed (app \<sigma>) \<and>
      (\<forall>a. (WaitForDeployment a, True) \<notin>
           set (drop (length (history \<sigma>)) (history (snd (deployNFT env \<sigma>)))))"
    if "provider (app \<sigma>) = None \<or> deployment env SimpleNFTArtifact (history \<sigma>) = Inl e"
  proof (cases "provider (app \<sigma>) = None")
    case True
    then show ?thesis by (simp add: no_provider_noop)
  next
    case False
    with that have "deployment env SimpleNFTArtifact (history \<sigma>) = Inl e" by simp
    from deployNFT_fail [OF False this] show ?thesis by auto
  qed
  have token_ok: "deployed (app (snd (deployToken env \<sigma>))) = (deployed (app \<sigma>))\<lparr>token := Some (target c)\<rparr> \<and>
      history (snd (deployToken env \<sigma>)) = history \<sigma> @ deployment_calls EscbaseTokenArtifact c"
    if "provider (app \<sigma>) \<noteq> None" "deployment env EscbaseTokenArtifact (history \<sigma>) = Inr c"
    using deployToken_ok [OF that] by simp
  have token_fail: "deployed (app (snd (deployToken env \<sigma>))) = deployed (app \<sigma>) \<and>
      (\<forall>a. (WaitForDeployment a, True) \<notin>
           set (drop (length (history \<sigma>)) (history (snd (deployToken env \<sigma>)))))"
    if "provider (app \<sigma>) = None \<or> deployment env EscbaseTokenArtifact (history \<sigma>) = Inl e"
  proof (cases "provider (app \<sigma>) = None")
    case True
    then show ?thesis by (simp add: no_provider_noop)
  next
    case False
    with that have "deployment env EscbaseTokenArtifact (history \<sigma>) = Inl e" by simp
    from deployToken_fail [OF False this] show ?thesis by auto
  qed
  show ?thesis
    using nft_ok nft_fail token_ok token_fail confirmed_initial confirmed_session by blast
qed

lemma deployment_env_deploy_reverts: "deployment env_deploy_reverts art h = Inl rpc_down"
  by (simp add: deployment_def env_deploy_reverts_def env_ok_def)

lemma connected_deployed: "deployed (app connected_sys) = \<lparr>nft = None, token = None\<rparr>"
  by (simp add: connected_sys_def initial_sys_def initial_state_def)

lemma connected_confirmed: "deployed_confirmed connected_sys"
  by (simp add: deployed_confirmed_def connected_deployed)

lemma click_deployNFT_connected:
  "session env [ClickDeployNFT] connected_sys = snd (deployNFT env connected_sys)"
  by (simp add: trigger_def connected_provider connected_sys_def initial_sys_def initial_state_def)

theorem deployed_set_iff_confirmed_witness:
  "nft (deployed (app (snd (deployNFT env_ok connected_sys)))) = Some (js ''0xAAA'') \<and>
   (WaitForDeployment (js ''0xAAA''), True) \<in> set (history (snd (deployNFT env_ok connected_sys))) \<and>
   token (deployed (app (snd (deployToken env_ok connected_sys)))) = Some (js ''0xAAA'') \<and>
   nft (deployed (app (snd (deployNFT env_deploy_reverts connected_sys)))) = None \<and>
   token (deployed (app (snd (deployToken env_deploy_reverts connected_sys)))) = None \<and>
   nft (deployed (app (snd (deployNFT env_ok initial_sys)))) = None \<and>
   deployed_confirmed (session env_ok [ClickDeployNFT] connected_sys)"
  using deployed_set_iff_confirmed
      [of connected_sys env_ok "\<lparr>target = js ''0xAAA'', deployTx = Some \<lparr>hash = js ''0x01''\<rparr>\<rparr>"
        rpc_down "[ClickDeployNFT]"]
    deployed_set_iff_confirmed
      [of connected_sys env_deploy_reverts "\<lparr>target = js ''0xAAA'', deployTx = None\<rparr>"
        rpc_down "[]"]
    deployed_set_iff_confirmed
      [of initial_sys env_ok "\<lparr>target = js ''0xAAA'', deployTx = None\<rparr>" rpc_down "[]"]
  by (simp add: connected_provider connected_history connected_deployed connected_confirmed
      deployment_env_ok deployment_env_deploy_reverts deployment_calls_def
      initial_sys_def initial_state_def)

section \<open>Where the network is checked\<close>

lemma no_send_app: "no_send_since h \<sigma> \<Longrightarrow> no_send_since h (\<sigma>\<lparr>app := a\<rparr>)"
  by (simp add: no_send_since_def)

lemma no_send_request:
  "no_send_since h \<sigma> \<Longrightarrow> \<not> is_send c \<Longrightarrow> no_send_since h (\<sigma>\<lparr>history := history \<sigma> @ [(c, ok)]\<rparr>)"
  by (auto simp add: no_send_since_def)

lemma no_send_start: "no_send_since (history \<sigma>) \<sigma>"
  by (simp add: no_send_since_def)

lemma no_send_deployNFT: "stable (no_send_since h) (deployNFT env)"
  unfolding action_defs call_defs set_defs
  by (intro stable_intros; simp add: no_send_app no_send_request)

lemma no_send_deployToken: "stable (no_send_since h) (deployToken env)"
  unfolding action_defs call_defs set_defs
  by (intro stable_intros; simp add: no_send_app no_send_request)

lemma no_send_mintNft: "stable (no_send_since h) (mintNft env)"
  unfolding action_defs call_defs set_defs
  by (intro stable_intros; simp add: no_send_app no_send_request)

lemma no_send_mintToken: "stable (no_send_since h) (mintToken env)"
  unfolding action_defs call_defs set_defs
  by (intro stable_intros; simp add: no_send_app no_send_request)

lemma no_send_sendUSDC: "stable (no_send_since h) (sendUSDC env)"
  unfolding action_defs call_defs set_defs
  by (intro stable_intros; simp add: no_send_app no_send_request)

lemma no_send_swapUSDCtoESC: "stable (no_send_since h) (swapUSDCtoESC env)"
  unfolding action_defs call_defs set_defs
  by (intro stable_intros; simp add: no_send_app no_send_request)

lemma no_send_action:
  assumes "ev \<in> set action_events"
  shows "no_send_since (history \<sigma>) (snd (handler env ev \<sigma>))"
  using assms no_send_start [of \<sigma>]
    stableD [OF no_send_deployNFT] stableD [OF no_send_deployToken] stableD [OF no_send_mintNft]
    stableD [OF no_send_mintToken] stableD [OF no_send_sendUSDC] stableD [OF no_send_swapUSDCtoESC]
  by (auto simp add: action_events_def)

lemma no_provider_action:
  assumes "ev \<in> set action_events" and "provider (app \<sigma>) = None"
  shows "handler env ev \<sigma> = (Inr (), \<sigma>)"
  using assms by (auto simp add: action_events_def no_provider_noop)

lemma provider_kept_ensureArcNetwork:
  "stable (\<lambda>\<sigma>. provider (app \<sigma>) = p) (ensureArcNetwork env prov)"
  unfolding ensureArcNetwork_def ensureArcNetwork_try_def call_defs set_defs
  by (intro stable_intros; simp)

lemma provider_kept_send:
  "stable (\<lambda>\<sigma>. provider (app \<sigma>) = p) (send env m ps)"
  unfolding call_defs
  by (intro stable_intros; simp)

lemma connect_sets_provider_after_reconcile:
  assumes "provider (app \<sigma>) = None" and "provider (app (snd (connect env \<sigma>))) \<noteq> None"
  shows "ethereum env \<and>
         fst (ensureArcNetwork env BrowserProvider
                (snd (send env (js ''eth_requestAccounts'') NoParams \<sigma>))) = Inr True"
proof -
  have eth: "ethereum env"
  proof (rule ccontr)
    assume "\<not> ethereum env"
    then have "provider (app (snd (connect env \<sigma>))) = provider (app \<sigma>)"
      by (simp add: connect_def alert_def)
    with assms show False by simp
  qed
  obtain r1 \<sigma>1 where s1: "send env (js ''eth_requestAccounts'') NoParams \<sigma> = (r1, \<sigma>1)"
    by (cases "send env (js ''eth_requestAccounts'') NoParams \<sigma>")
  have p1: "provider (app \<sigma>1) = None"
    using stableD [OF provider_kept_send [of None env "js ''eth_requestAccounts''" NoParams], of \<sigma>]
      assms(1) s1 by simp
  obtain r2 \<sigma>2 where s2: "ensureArcNetwork env BrowserProvider \<sigma>1 = (r2, \<sigma>2)"
    by (cases "ensureArcNetwork env BrowserProvider \<sigma>1")
  have p2: "provider (app \<sigma>2) = None"
    using stableD [OF provider_kept_ensureArcNetwork [of None env BrowserProvider], of \<sigma>1] p1 s2
    by simp
  have "r2 = Inr True"
  proof (rule ccontr)
    assume n: "r2 \<noteq> Inr True"
    have "provider (app (snd (connect env \<sigma>))) = None"
    proof (cases r1)
      case (Inl e)
      then show ?thesis using eth s1 p1 by (simp add: connect_def bind_def Let_def)
    next
      case (Inr v)
      then show ?thesis using eth s1 s2 p2 n
        by (cases r2) (auto simp add: connect_def bind_def Let_def ret_def)
    qed
    with assms(2) show False by simp
  qed
  with eth s1 s2 show ?thesis by simp
qed

text \<open>
  Claim C1, as amended. Network reconciliation belongs to the connect action (and to the
  \<^verbatim>\<open>Switch to Arc\<close> button): connect stores the provider only after
  \<^verbatim>\<open>ensureArcNetwork\<close> returned true. Each deploy, mint, transfer and swap action is
  gated on the stored provider and issues no request when there is none; run with a
  provider, it goes to its chain calls without reading or switching the network (it
  issues no \<^verbatim>\<open>prov.send\<close> request at all).
\<close>

theorem network_checked_at_connect_only:
  "(\<forall>ev \<in> set action_events. provider (app \<sigma>) = None \<longrightarrow> handler env ev \<sigma> = (Inr (), \<sigma>)) \<and>
   (\<forall>ev \<in> set action_events. no_send_since (history \<sigma>) (snd (handler env ev \<sigma>))) \<and>
   (provider (app \<sigma>) = None \<and> provider (app (snd (connect env \<sigma>))) \<noteq> None \<longrightarrow>
      ethereum env \<and>
      fst (ensureArcNetwork env BrowserProvider
             (snd (send env (js ''eth_requestAccounts'') NoParams \<sigma>))) = Inr True)"
  using no_provider_action no_send_action connect_sets_provider_after_reconcile by blast


lemma ensureArcNetwork_env_ok:
  "ensureArcNetwork env_ok prov \<sigma> = (Inr True, \<sigma>\<lparr>history := history \<sigma> @ [(chainId_call, True)]\<rparr>)"
  by (rule ensureArcNetwork_on_target [OF env_ok_chainId upper_case_on_target])

lemma env_ok_answers:
  "ethereum env_ok"
  "send_result env_ok h m p = Inr (JString (js ''0x4CEF52''))"
  "getSigner_result env_ok h = Inr \<lparr>address = js ''0xF00D''\<rparr>"
  "getBalance_result env_ok h a = Inr 0"
  "sendTransaction_result env_ok h to v = Inr \<lparr>hash = js ''0x04''\<rparr>"
  "swap_result env_ok h a v = Inr \<lparr>hash = js ''0x03''\<rparr>"
  "wait_result env_ok h tx = Inr ()"
  by (simp_all add: env_ok_def)

lemma connect_env_ok_provider:
  "provider (app (snd (connect env_ok initial_sys))) = Some BrowserProvider"
  by (simp add: connect_def bind_def ensureArcNetwork_env_ok Let_def send_def getSigner_def
      request_def modify_def try_catch_def refreshBalance_def getBalance_def lift_def
      formatUnits_def checkValue_def setNativeBalance_def pushLog_def env_ok_answers)

lemma deployment_env_off_target:
  "deployment env_off_target art h = Inr \<lparr>target = js ''0xAAA'', deployTx = Some \<lparr>hash = js ''0x01''\<rparr>\<rparr>"
  by (simp add: deployment_def env_off_target_def env_ok_def)

theorem network_checked_at_connect_only_witness:
  "provider (app initial_sys) = None \<and>
   handler env_ok ClickDeployNFT initial_sys = (Inr (), initial_sys) \<and>
   handler env_ok ClickSwap initial_sys = (Inr (), initial_sys) \<and>
   no_send_since (history connected_sys) (snd (handler env_off_target ClickDeployNFT connected_sys)) \<and>
   provider (app (snd (connect env_ok initial_sys))) = Some BrowserProvider \<and>
   fst (ensureArcNetwork env_ok BrowserProvider
          (snd (send env_ok (js ''eth_requestAccounts'') NoParams initial_sys))) = Inr True"
  using network_checked_at_connect_only [of initial_sys env_ok]
    network_checked_at_connect_only [of connected_sys env_off_target]
    connect_env_ok_provider
  by (simp add: action_events_def initial_sys_def initial_state_def)

text \<open>
  The claim as it stands has every action reconcile the network and stop when the wallet
  is elsewhere. After a connect, with the wallet moved to chain \<^verbatim>\<open>0x1\<close>, the deploy
  action deploys all the same.
\<close>

theorem deploy_on_wrong_network_proceeds:
  "send_result env_off_target (history connected_sys) (js ''eth_chainId'') NoParams =
     Inr (JString (js ''0x1'')) \<and>
   toLowerCase (js ''0x1'') \<noteq> ARC_CHAIN_ID_HEX \<and>
   history (snd (trigger env_off_target ClickDeployNFT connected_sys)) =
     [(GetSigner, True), (FactoryDeploy SimpleNFTArtifact, True),
      (WaitForDeployment (js ''0xAAA''), True)] \<and>
   nft (deployed (app (snd (trigger env_off_target ClickDeployNFT connected_sys)))) =
     Some (js ''0xAAA'')"
proof -
  have t: "trigger env_off_target ClickDeployNFT connected_sys =
           deployNFT env_off_target connected_sys"
    by (simp add: trigger_def connected_sys_def initial_sys_def initial_state_def)
  have p: "provider (app connected_sys) \<noteq> None" by (simp add: connected_provider)
  show ?thesis
    using off_target
    by (simp add: t deployNFT_ok [OF p deployment_env_off_target] deployment_calls_def
        connected_history on_target_def)
      (simp add: env_off_target_def)
qed

section \<open>Errors at the boundary of an action\<close>

lemma with_busy_caught:
  "body (entering \<sigma>) = (Inl e, \<sigma>') \<Longrightarrow> with_busy body \<sigma> = (Inr (), caught e \<sigma>')"
  by (simp add: with_busy_run entering_def caught_def)

lemma mintNft_guard:
  "provider (app \<sigma>) \<noteq> None \<Longrightarrow> nft (deployed (app \<sigma>)) = Some addr \<Longrightarrow> addr \<noteq> [] \<Longrightarrow>
   mintNft env \<sigma> = with_busy (mintNft_try env addr) \<sigma>"
  by (auto simp add: mintNft_def bind_def read_state_def)

lemma sendUSDC_guard:
  "provider (app \<sigma>) \<noteq> None \<Longrightarrow> sendRecipient (app \<sigma>) \<noteq> [] \<Longrightarrow> sendAmount (app \<sigma>) \<noteq> [] \<Longrightarrow>
   sendUSDC env \<sigma> = with_busy (sendUSDC_try env (app \<sigma>)) \<sigma>"
  by (auto simp add: sendUSDC_def bind_def read_state_def)

lemma swapUSDCtoESC_guard:
  "provider (app \<sigma>) \<noteq> None \<Longrightarrow> token (deployed (app \<sigma>)) = Some addr \<Longrightarrow> addr \<noteq> [] \<Longrightarrow>
   swapAmount (app \<sigma>) \<noteq> [] \<Longrightarrow>
   swapUSDCtoESC env \<sigma> = with_busy (swapUSDCtoESC_try env (app \<sigma>) addr) \<sigma>"
  by (auto simp add: swapUSDCtoESC_def bind_def read_state_def)

lemma bind_throws: "m \<sigma> = (Inl e, \<sigma>') \<Longrightarrow> bind m f \<sigma> = (Inl e, \<sigma>')"
  by (simp add: bind_def)

lemma action_returns:
  assumes "ev \<in> set action_events"
  shows "fst (handler env ev \<sigma>) = Inr ()"
  using assms
  by (auto simp add: action_events_def deployNFT_def deployToken_def mintNft_def mintToken_def
      sendUSDC_def swapUSDCtoESC_def bind_def read_state_def ret_def with_busy_returns
      split: option.splits)

lemma getErrorMessage_bounded: "length (getErrorMessage e) \<le> 181"
  by (cases e) (simp_all add: getErrorMessage_def js_def Let_def)

lemma ensureArcNetwork_try_logs:
  "stable (\<lambda>\<sigma>. logs (app \<sigma>) = l) (ensureArcNetwork_try env prov)"
  unfolding ensureArcNetwork_try_def call_defs
  by (intro stable_intros; simp)

lemma ensureArcNetwork_caught:
  assumes "ensureArcNetwork_try env prov \<sigma> = (Inl e, \<sigma>')"
  shows "ensureArcNetwork env prov \<sigma> =
           (Inr False,
            \<sigma>'\<lparr>app := (app \<sigma>')\<lparr>logs := switch_error_entry e # logs (app \<sigma>')\<rparr>,
               console := console \<sigma>' @ [e]\<rparr>)"
  using assms by (simp add: ensureArcNetwork_def run_defs pushLog_def)

lemma ensureArcNetwork_try_result:
  "fst (ensureArcNetwork_try env prov \<sigma>) =
     (case reconcile_failure env (history \<sigma>) of None \<Rightarrow> Inr True | Some e \<Rightarrow> Inl e)"
  by (auto simp add: ensureArcNetwork_try_def reconcile_failure_def on_target_def
      unrecognized_def chainId_call_def switch_call_def add_call_def run_defs send_def Let_def
      split: sum.splits)

lemma ensureArcNetwork_reconciled:
  assumes "reconcile_failure env (history \<sigma>) = None"
  shows "fst (ensureArcNetwork env prov \<sigma>) = Inr True"
    and "logs (app (snd (ensureArcNetwork env prov \<sigma>))) = logs (app \<sigma>)"
proof -
  obtain r \<sigma>' where t: "ensureArcNetwork_try env prov \<sigma> = (r, \<sigma>')"
    by (cases "ensureArcNetwork_try env prov \<sigma>")
  have l: "logs (app \<sigma>') = logs (app \<sigma>)"
    using stableD [OF ensureArcNetwork_try_logs [of "logs (app \<sigma>)" env prov], of \<sigma>] t by simp
  have r: "r = Inr True"
    using ensureArcNetwork_try_result [of env prov \<sigma>] assms t by simp
  show "fst (ensureArcNetwork env prov \<sigma>) = Inr True"
    "logs (app (snd (ensureArcNetwork env prov \<sigma>))) = logs (app \<sigma>)"
    using t r l by (simp_all add: ensureArcNetwork_def try_catch_def)
qed

lemma ensureArcNetwork_failed:
  assumes "reconcile_failure env (history \<sigma>) = Some e"
  shows "fst (ensureArcNetwork env prov \<sigma>) = Inr False"
    and "logs (app (snd (ensureArcNetwork env prov \<sigma>))) = switch_error_entry e # logs (app \<sigma>)"
proof -
  obtain r \<sigma>' where t: "ensureArcNetwork_try env prov \<sigma> = (r, \<sigma>')"
    by (cases "ensureArcNetwork_try env prov \<sigma>")
  have l: "logs (app \<sigma>') = logs (app \<sigma>)"
    using stableD [OF ensureArcNetwork_try_logs [of "logs (app \<sigma>)" env prov], of \<sigma>] t by simp
  have "r = Inl e"
    using ensureArcNetwork_try_result [of env prov \<sigma>] assms t by simp
  with t have "ensureArcNetwork_try env prov \<sigma> = (Inl e, \<sigma>')" by simp
  from ensureArcNetwork_caught [OF this] l
  show "fst (ensureArcNetwork env prov \<sigma>) = Inr False"
    "logs (app (snd (ensureArcNetwork env prov \<sigma>))) = switch_error_entry e # logs (app \<sigma>)"
    by simp_all
qed

text \<open>
  Claim C5, as amended. None of the six deploy, mint, send and swap actions ends with an
  uncaught error. An error thrown in the \<^verbatim>\<open>try\<close> block of a deploy or mint action, or
  in that of a send or swap action before its balance refresh, is caught at the action's
  boundary: the action ends normally in the state of the throw with exactly one error
  entry more, whose message is \<^verbatim>\<open>getErrorMessage\<close> of the error and has at most 181
  code units (180 and an ellipsis), and with \<open>busy\<close> cleared. An error of the network
  reconciliation is caught inside \<^verbatim>\<open>ensureArcNetwork\<close>: when its \<^verbatim>\<open>try\<close> block
  throws \<open>e\<close>, it returns false in the state of the throw with \<open>e\<close> written to the console
  and exactly one error entry more, the text \<^verbatim>\<open>Failed to switch to Arc Testnet: \<close>
  followed by the whole message of \<open>e\<close> (or by \<^verbatim>\<open>unknown error\<close> when \<open>e\<close> has
  none). The error thrown is the one the wallet rejected a request of the reconciliation
  with (\<open>reconcile_failure\<close>); when no request is rejected, reconciliation returns true
  and logs nothing.
\<close>

theorem action_errors_caught_and_logged:
  "(\<forall>ev \<in> set action_events. fst (handler env ev \<sigma>) = Inr ()) \<and>
   (provider (app \<sigma>) \<noteq> None \<and> deployNFT_try env (entering \<sigma>) = (Inl e, \<sigma>') \<longrightarrow>
      deployNFT env \<sigma> = (Inr (), caught e \<sigma>')) \<and>
   (provider (app \<sigma>) \<noteq> None \<and> deployToken_try env (entering \<sigma>) = (Inl e, \<sigma>') \<longrightarrow>
      deployToken env \<sigma> = (Inr (), caught e \<sigma>')) \<and>
   (provider (app \<sigma>) \<noteq> None \<and> nft (deployed (app \<sigma>)) = Some addr \<and> addr \<noteq> [] \<and>
    mintNft_try env addr (entering \<sigma>) = (Inl e, \<sigma>') \<longrightarrow>
      mintNft env \<sigma> = (Inr (), caught e \<sigma>')) \<and>
   (provider (app \<sigma>) \<noteq> None \<and> token (deployed (app \<sigma>)) = Some addr \<and> addr \<noteq> [] \<and>
    mintToken_try env addr (entering \<sigma>) = (Inl e, \<sigma>') \<longrightarrow>
      mintToken env \<sigma> = (Inr (), caught e \<sigma>')) \<and>
   (provider (app \<sigma>) \<noteq> None \<and> sendRecipient (app \<sigma>) \<noteq> [] \<and> sendAmount (app \<sigma>) \<noteq> [] \<and>
    sendUSDC_transfer env (app \<sigma>) (entering \<sigma>) = (Inl e, \<sigma>') \<longrightarrow>
      sendUSDC env \<sigma> = (Inr (), caught e \<sigma>')) \<and>
   (provider (app \<sigma>) \<noteq> None \<and> token (deployed (app \<sigma>)) = Some addr \<and> addr \<noteq> [] \<and>
    swapAmount (app \<sigma>) \<noteq> [] \<and>
    swapUSDCtoESC_transfer env (app \<sigma>) addr (entering \<sigma>) = (Inl e, \<sigma>') \<longrightarrow>
      swapUSDCtoESC env \<sigma> = (Inr (), caught e \<sigma>')) \<and>
   logs (app (caught e \<sigma>')) =
     \<lparr>type = Error, message = getErrorMessage e, href = None\<rparr> # logs (app \<sigma>') \<and>
   length (getErrorMessage e) \<le> 181 \<and>
   (ensureArcNetwork_try env prov \<sigma> = (Inl e, \<sigma>') \<longrightarrow>
      ensureArcNetwork env prov \<sigma> =
        (Inr False,
         \<sigma>'\<lparr>app := (app \<sigma>')\<lparr>logs :=
               \<lparr>type = Error,
                 message = js ''Failed to switch to Arc Testnet: '' @
                           or_else (err_message e) (js ''unknown error''),
                 href = None\<rparr> # logs (app \<sigma>')\<rparr>,
            console := console \<sigma>' @ [e]\<rparr>)) \<and>
   (reconcile_failure env (history \<sigma>) = Some e \<longrightarrow>
      fst (ensureArcNetwork env prov \<sigma>) = Inr False \<and>
      logs (app (snd (ensureArcNetwork env prov \<sigma>))) =
        \<lparr>type = Error,
          message = js ''Failed to switch to Arc Testnet: '' @
                    or_else (err_message e) (js ''unknown error''),
          href = None\<rparr> # logs (app \<sigma>)) \<and>
   (reconcile_failure env (history \<sigma>) = None \<longrightarrow>
      fst (ensureArcNetwork env prov \<sigma>) = Inr True \<and>
      logs (app (snd (ensureArcNetwork env prov \<sigma>))) = logs (app \<sigma>))"
proof -
  have a: "\<forall>ev \<in> set action_events. fst (handler env ev \<sigma>) = Inr ()"
    using action_returns by blast
  have d1: "deployNFT env \<sigma> = (Inr (), caught e \<sigma>')"
    if "provider (app \<sigma>) \<noteq> None" "deployNFT_try env (entering \<sigma>) = (Inl e, \<sigma>')"
    using that by (simp add: deployNFT_guard with_busy_caught)
  have d2: "deployToken env \<sigma> = (Inr (), caught e \<sigma>')"
    if "provider (app \<sigma>) \<noteq> None" "deployToken_try env (entering \<sigma>) = (Inl e, \<sigma>')"
    using that by (simp add: deployToken_guard with_busy_caught)
  have m1: "mintNft env \<sigma> = (Inr (), caught e \<sigma>')"
    if "provider (app \<sigma>) \<noteq> None" "nft (deployed (app \<sigma>)) = Some addr" "addr \<noteq> []"
      "mintNft_try env addr (entering \<sigma>) = (Inl e, \<sigma>')"
    using that by (simp add: mintNft_guard with_busy_caught)
  have m2: "mintToken env \<sigma> = (Inr (), caught e \<sigma>')"
    if "provider (app \<sigma>) \<noteq> None" "token (deployed (app \<sigma>)) = Some addr" "addr \<noteq> []"
      "mintToken_try env addr (entering \<sigma>) = (Inl e, \<sigma>')"
    using that by (simp add: mintToken_guard with_busy_caught)
  have s1: "sendUSDC env \<sigma> = (Inr (), caught e \<sigma>')"
    if "provider (app \<sigma>) \<noteq> None" "sendRecipient (app \<sigma>) \<noteq> []" "sendAmount (app \<sigma>) \<noteq> []"
      "sendUSDC_transfer env (app \<sigma>) (entering \<sigma>) = (Inl e, \<sigma>')"
    using that by (simp add: sendUSDC_guard with_busy_caught sendUSDC_try_def bind_throws)
  have s2: "swapUSDCtoESC env \<sigma> = (Inr (), caught e \<sigma>')"
    if "provider (app \<sigma>) \<noteq> None" "token (deployed (app \<sigma>)) = Some addr" "addr \<noteq> []"
      "swapAmount (app \<sigma>) \<noteq> []"
      "swapUSDCtoESC_transfer env (app \<sigma>) addr (entering \<sigma>) = (Inl e, \<sigma>')"
    using that by (simp add: swapUSDCtoESC_guard with_busy_caught swapUSDCtoESC_try_def bind_throws)
  have c: "logs (app (caught e \<sigma>')) =
     \<lparr>type = Error, message = getErrorMessage e, href = None\<rparr> # logs (app \<sigma>')"
    by (simp add: caught_def error_entry_def)
  have r1: "ensureArcNetwork env prov \<sigma> =
        (Inr False,
         \<sigma>'\<lparr>app := (app \<sigma>')\<lparr>logs :=
               \<lparr>type = Error,
                 message = js ''Failed to switch to Arc Testnet: '' @
                           or_else (err_message e) (js ''unknown error''),
                 href = None\<rparr> # logs (app \<sigma>')\<rparr>,
            console := console \<sigma>' @ [e]\<rparr>)"
    if "ensureArcNetwork_try env prov \<sigma> = (Inl e, \<sigma>')"
    using ensureArcNetwork_caught [OF that] by (simp add: switch_error_entry_def)
  have r2: "fst (ensureArcNetwork env prov \<sigma>) = Inr False \<and>
      logs (app (snd (ensureArcNetwork env prov \<sigma>))) =
        \<lparr>type = Error,
          message = js ''Failed to switch to Arc Testnet: '' @
                    or_else (err_message e) (js ''unknown error''),
          href = None\<rparr> # logs (app \<sigma>)"
    if "reconcile_failure env (history \<sigma>) = Some e"
    using ensureArcNetwork_failed [OF that, of prov] by (simp add: switch_error_entry_def)
  have r3: "fst (ensureArcNetwork env prov \<sigma>) = Inr True \<and>
      logs (app (snd (ensureArcNetwork env prov \<sigma>))) = logs (app \<sigma>)"
    if "reconcile_failure env (history \<sigma>) = None"
    using ensureArcNetwork_reconciled [OF that, of prov] by simp
  have b: "length (getErrorMessage e) \<le> 181"
    by (rule getErrorMessage_bounded)
  show ?thesis
    apply (intro conjI impI)
                   apply (rule a)
                  apply (elim conjE, erule (1) d1)
                 apply (elim conjE, erule (1) d2)
                apply (elim conjE, erule (3) m1)
               apply (elim conjE, erule (3) m2)
              apply (elim conjE, erule (3) s1)
             apply (elim conjE, erule (4) s2)
            apply (rule c)
           apply (rule b)
          apply (erule r1)
         apply (erule r2 [THEN conjunct1])
        apply (erule r2 [THEN conjunct2])
       apply (erule r3 [THEN conjunct1])
      apply (erule r3 [THEN conjunct2])
    done
qed


lemma ready_fields:
  "provider (app ready_sys) = Some BrowserProvider"
  "nft (deployed (app ready_sys)) = Some (js ''0xAAA'')"
  "token (deployed (app ready_sys)) = Some (js ''0xBBB'')"
  "sendRecipient (app ready_sys) = js ''0xF00D''"
  "sendAmount (app ready_sys) = js ''1''"
  "swapAmount (app ready_sys) = js ''1''"
  "nativeBalance (app ready_sys) = js ''5.0''"
  "logs (app ready_sys) = []"
  "history ready_sys = []"
  "busy (app ready_sys) = False"
  by (simp_all add: ready_sys_def connected_sys_def initial_sys_def initial_state_def)

lemma getErrorMessage_rpc_down: "getErrorMessage rpc_down = js ''rpc down''"
  by (simp add: getErrorMessage_def rpc_down_def js_def)

lemma str_includes_replicate:
  "sub \<noteq> [] \<Longrightarrow> hd sub \<noteq> c \<Longrightarrow> \<not> str_includes (replicate n c) sub"
  by (induction n) (auto simp add: prefix_Cons)

lemma env_signer_fails_answers: "getSigner_result env_signer_fails h = Inl rpc_down"
  by (simp add: env_signer_fails_def)

lemma signer_fails_try:
  "deployNFT_try env_signer_fails (entering ready_sys) =
     (Inl rpc_down, (entering ready_sys)\<lparr>history := [(GetSigner, False)]\<rparr>)"
  "deployToken_try env_signer_fails (entering ready_sys) =
     (Inl rpc_down, (entering ready_sys)\<lparr>history := [(GetSigner, False)]\<rparr>)"
  "mintNft_try env_signer_fails a (entering ready_sys) =
     (Inl rpc_down, (entering ready_sys)\<lparr>history := [(GetSigner, False)]\<rparr>)"
  "mintToken_try env_signer_fails a (entering ready_sys) =
     (Inl rpc_down, (entering ready_sys)\<lparr>history := [(GetSigner, False)]\<rparr>)"
  "sendUSDC_transfer env_signer_fails s (entering ready_sys) =
     (Inl rpc_down, (entering ready_sys)\<lparr>history := [(GetSigner, False)]\<rparr>)"
  "swapUSDCtoESC_transfer env_signer_fails s a (entering ready_sys) =
     (Inl rpc_down, (entering ready_sys)\<lparr>history := [(GetSigner, False)]\<rparr>)"
  by (simp_all add: deployNFT_try_def deployToken_try_def mintNft_try_def mintToken_try_def
      sendUSDC_transfer_def swapUSDCtoESC_transfer_def bind_def getSigner_def request_def
      env_signer_fails_answers entering_def ready_fields)

lemma getErrorMessage_long: "getErrorMessage long_error = replicate 180 0x78 @ [0x2026]"
  by (simp add: getErrorMessage_def long_error_def str_includes_replicate js_def)

lemma sample_nonempty:
  "js ''0xAAA'' \<noteq> []" "js ''0xBBB'' \<noteq> []" "js ''0xF00D'' \<noteq> []" "js ''1'' \<noteq> []"
  by (simp_all add: js_def)

lemma env_switch_fails_answers:
  "send_result env_switch_fails h m NoParams = Inr (JString (js ''0x1''))"
  "send_result env_switch_fails h m (SwitchChain c) = Inl long_error"
  by (simp_all add: env_switch_fails_def)

lemma long_error_not_unrecognized: "\<not> unrecognized long_error"
  by (simp add: unrecognized_def long_error_def str_includes_replicate js_def)

lemma reconcile_failure_samples:
  "reconcile_failure env_switch_fails h = Some long_error"
  "reconcile_failure env_ok h = None"
  using off_target upper_case_on_target long_error_not_unrecognized
  by (simp_all add: reconcile_failure_def env_switch_fails_answers env_ok_answers)

lemma long_error_facts:
  "err_code long_error \<noteq> NumCode 4902"
  "\<not> str_includes (replicate 300 0x78) (js ''Unrecognized chain'')"
  "err_message long_error = Some (replicate 300 0x78)"
  by (simp_all add: long_error_def str_includes_replicate js_def)

lemma initial_fields:
  "logs (app initial_sys) = []" "console initial_sys = []" "history initial_sys = []"
  by (simp_all add: initial_sys_def initial_state_def)

lemma switch_fails_try:
  "ensureArcNetwork_try env_switch_fails BrowserProvider initial_sys =
     (Inl long_error, initial_sys\<lparr>history := [(chainId_call, True), (switch_call, False)]\<rparr>)"
  using off_target
  by (simp add: ensureArcNetwork_try_def run_defs send_def env_switch_fails_answers
      on_target_def chainId_call_def switch_call_def initial_fields long_error_facts)

lemma long_error_message:
  "or_else (err_message long_error) (js ''unknown error'') = replicate 300 0x78"
  by (simp add: long_error_def)

theorem action_errors_caught_and_logged_witness:
  "deployNFT env_signer_fails ready_sys =
     (Inr (), caught rpc_down ((entering ready_sys)\<lparr>history := [(GetSigner, False)]\<rparr>)) \<and>
   deployToken env_signer_fails ready_sys =
     (Inr (), caught rpc_down ((entering ready_sys)\<lparr>history := [(GetSigner, False)]\<rparr>)) \<and>
   mintNft env_signer_fails ready_sys =
     (Inr (), caught rpc_down ((entering ready_sys)\<lparr>history := [(GetSigner, False)]\<rparr>)) \<and>
   mintToken env_signer_fails ready_sys =
     (Inr (), caught rpc_down ((entering ready_sys)\<lparr>history := [(GetSigner, False)]\<rparr>)) \<and>
   sendUSDC env_signer_fails ready_sys =
     (Inr (), caught rpc_down ((entering ready_sys)\<lparr>history := [(GetSigner, False)]\<rparr>)) \<and>
   swapUSDCtoESC env_signer_fails ready_sys =
     (Inr (), caught rpc_down ((entering ready_sys)\<lparr>history := [(GetSigner, False)]\<rparr>)) \<and>
   logs (app (caught rpc_down ((entering ready_sys)\<lparr>history := [(GetSigner, False)]\<rparr>))) =
     [\<lparr>type = Error, message = js ''rpc down'', href = None\<rparr>] \<and>
   length (getErrorMessage long_error) = 181 \<and>
   fst (handler env_signer_fails ClickSend ready_sys) = Inr () \<and>
   ensureArcNetwork env_switch_fails BrowserProvider initial_sys =
     (Inr False,
      initial_sys\<lparr>app := (app initial_sys)\<lparr>logs :=
            [\<lparr>type = Error,
               message = js ''Failed to switch to Arc Testnet: '' @ replicate 300 0x78,
               href = None\<rparr>]\<rparr>,
         history := [(chainId_call, True), (switch_call, False)],
         console := [long_error]\<rparr>) \<and>
   reconcile_failure env_switch_fails (history initial_sys) = Some long_error \<and>
   reconcile_failure env_ok (history initial_sys) = None \<and>
   fst (ensureArcNetwork env_ok BrowserProvider initial_sys) = Inr True \<and>
   logs (app (snd (ensureArcNetwork env_ok BrowserProvider initial_sys))) = []"
proof -
  note switch_case = action_errors_caught_and_logged
      [where \<sigma> = initial_sys and env = env_switch_fails and e = long_error
        and \<sigma>' = "initial_sys\<lparr>history := [(chainId_call, True), (switch_call, False)]\<rparr>"
        and addr = "js ''0xAAA''" and prov = BrowserProvider]
  note on_target_case = action_errors_caught_and_logged
      [where \<sigma> = initial_sys and env = env_ok and e = long_error
        and \<sigma>' = initial_sys and addr = "js ''0xAAA''" and prov = BrowserProvider]
  have sw: "ensureArcNetwork env_switch_fails BrowserProvider initial_sys =
     (Inr False,
      initial_sys\<lparr>app := (app initial_sys)\<lparr>logs :=
            [\<lparr>type = Error,
               message = js ''Failed to switch to Arc Testnet: '' @ replicate 300 0x78,
               href = None\<rparr>]\<rparr>,
         history := [(chainId_call, True), (switch_call, False)],
         console := [long_error]\<rparr>)"
    using switch_case
    by (simp add: switch_fails_try long_error_message initial_fields)
  have ok: "fst (ensureArcNetwork env_ok BrowserProvider initial_sys) = Inr True"
    "logs (app (snd (ensureArcNetwork env_ok BrowserProvider initial_sys))) = []"
    using on_target_case
    by (simp_all add: reconcile_failure_samples initial_fields)
  note nft_case = action_errors_caught_and_logged
      [where \<sigma> = ready_sys and env = env_signer_fails and e = rpc_down
        and \<sigma>' = "(entering ready_sys)\<lparr>history := [(GetSigner, False)]\<rparr>"
        and addr = "js ''0xAAA''" and prov = BrowserProvider]
  note token_case = action_errors_caught_and_logged
      [where \<sigma> = ready_sys and env = env_signer_fails and e = rpc_down
        and \<sigma>' = "(entering ready_sys)\<lparr>history := [(GetSigner, False)]\<rparr>"
        and addr = "js ''0xBBB''" and prov = BrowserProvider]
  have "deployNFT env_signer_fails ready_sys =
     (Inr (), caught rpc_down ((entering ready_sys)\<lparr>history := [(GetSigner, False)]\<rparr>))"
    "deployToken env_signer_fails ready_sys =
     (Inr (), caught rpc_down ((entering ready_sys)\<lparr>history := [(GetSigner, False)]\<rparr>))"
    "mintNft env_signer_fails ready_sys =
     (Inr (), caught rpc_down ((entering ready_sys)\<lparr>history := [(GetSigner, False)]\<rparr>))"
    "sendUSDC env_signer_fails ready_sys =
     (Inr (), caught rpc_down ((entering ready_sys)\<lparr>history := [(GetSigner, False)]\<rparr>))"
    "fst (handler env_signer_fails ClickSend ready_sys) = Inr ()"
    using nft_case by (simp_all add: signer_fails_try ready_fields sample_nonempty action_events_def)
  moreover have "mintToken env_signer_fails ready_sys =
     (Inr (), caught rpc_down ((entering ready_sys)\<lparr>history := [(GetSigner, False)]\<rparr>))"
    "swapUSDCtoESC env_signer_fails ready_sys =
     (Inr (), caught rpc_down ((entering ready_sys)\<lparr>history := [(GetSigner, False)]\<rparr>))"
    using token_case by (simp_all add: signer_fails_try ready_fields sample_nonempty)
  moreover have "logs (app (caught rpc_down ((entering ready_sys)\<lparr>history := [(GetSigner, False)]\<rparr>))) =
     [\<lparr>type = Error, message = js ''rpc down'', href = None\<rparr>]"
    by (simp add: caught_def error_entry_def entering_def ready_fields getErrorMessage_rpc_down)
  moreover have "length (getErrorMessage long_error) = 181"
    by (simp add: getErrorMessage_long)
  ultimately show ?thesis
    using sw ok by (simp add: reconcile_failure_samples)
qed

lemma env_user_rejects_answers: "send_result env_user_rejects h m p = Inl user_rejected"
  "ethereum env_user_rejects"
  by (simp_all add: env_user_rejects_def env_ok_def)

text \<open>
  The claim as it stands covers the authorization request of connect and bounds every
  logged message. A user who declines the authorization prompt makes connect end with
  that error uncaught and nothing logged; and a failed network switch is logged with its
  message in full, here 333 code units.
\<close>

theorem connect_rejection_escapes_and_switch_error_is_untruncated:
  "connect env_user_rejects initial_sys =
     (Inl user_rejected,
      initial_sys\<lparr>history := [(Send (js ''eth_requestAccounts'') NoParams, False)]\<rparr>) \<and>
   logs (app (snd (connect env_user_rejects initial_sys))) = [] \<and>
   logs (app (snd (ensureArcNetwork env_switch_fails BrowserProvider initial_sys))) =
     [\<lparr>type = Error, message = js ''Failed to switch to Arc Testnet: '' @ replicate 300 0x78,
        href = None\<rparr>] \<and>
   length (js ''Failed to switch to Arc Testnet: '' @ replicate 300 0x78) = 333"
proof -
  have c: "connect env_user_rejects initial_sys =
     (Inl user_rejected,
      initial_sys\<lparr>history := [(Send (js ''eth_requestAccounts'') NoParams, False)]\<rparr>)"
    by (simp add: connect_def Let_def bind_def send_def request_def env_user_rejects_answers
        initial_sys_def)
  have u: "err_code long_error \<noteq> NumCode 4902"
    "\<not> str_includes (replicate 300 0x78) (js ''Unrecognized chain'')"
    "err_message long_error = Some (replicate 300 0x78)"
    by (simp_all add: long_error_def str_includes_replicate js_def)
  have m: "or_else (err_message long_error) (js ''unknown error'') = replicate 300 0x78"
    by (simp add: long_error_def)
  have s: "logs (app (snd (ensureArcNetwork env_switch_fails BrowserProvider initial_sys))) =
     [switch_error_entry long_error]"
    using off_target
    by (simp add: ensureArcNetwork_def ensureArcNetwork_try_def run_defs send_def pushLog_def
        env_switch_fails_answers on_target_def initial_sys_def initial_state_def u)
  show ?thesis
    by (simp add: c s switch_error_entry_def m) (simp add: initial_sys_def initial_state_def js_def)
qed


section \<open>Formatting and parsing amounts\<close>

lemma digit_char_props:
  assumes "d < 10"
  shows "is_digit (digit_char d)" and "digit_val (digit_char d) = d"
proof -
  from assms have "d = 0 \<or> d = 1 \<or> d = 2 \<or> d = 3 \<or> d = 4 \<or> d = 5 \<or> d = 6 \<or> d = 7 \<or> d = 8 \<or> d = 9"
    by arith
  then show "is_digit (digit_char d)" and "digit_val (digit_char d) = d"
    by (auto simp add: is_digit_def digit_char_def digit_val_def)
qed

lemma is_digit_not_dot: "is_digit c \<Longrightarrow> c \<noteq> 0x2E"
  by (auto simp add: is_digit_def)

lemma is_digit_not_minus: "is_digit c \<Longrightarrow> c \<noteq> 0x2D"
  by (auto simp add: is_digit_def)

lemma dot_not_digit: "\<not> is_digit 0x2E"
  by (simp add: is_digit_def)

lemma zero_is_digit: "is_digit 0x30"
  by (simp add: is_digit_def)

lemma toString_digits_digits: "list_all is_digit (toString_digits n)"
proof (induction n rule: toString_digits.induct)
  case (1 n)
  show ?case
  proof (cases "n < 10")
    case True
    then show ?thesis by (simp add: toString_digits.simps [of n] digit_char_props)
  next
    case False
    then show ?thesis
      using 1 by (simp add: toString_digits.simps [of n] digit_char_props)
  qed
qed

lemma toString_digits_nonempty: "toString_digits n \<noteq> []"
  by (simp add: toString_digits.simps [of n])

lemma BigInt_digits_toString: "BigInt_digits (toString_digits n) = n"
proof (induction n rule: toString_digits.induct)
  case (1 n)
  show ?case
  proof (cases "n < 10")
    case True
    then show ?thesis
      by (simp add: toString_digits.simps [of n] BigInt_digits_def digit_char_props)
  next
    case False
    then have "BigInt_digits (toString_digits (n div 10)) = n div 10" using 1 by simp
    then show ?thesis
      using False
      by (simp add: toString_digits.simps [of n] BigInt_digits_snoc digit_char_props)
  qed
qed

lemma BigInt_digits_append:
  "BigInt_digits (a @ b) = BigInt_digits a * 10 ^ length b + BigInt_digits b"
proof (induction b rule: rev_induct)
  case Nil
  then show ?case by (simp add: BigInt_digits_def)
next
  case (snoc x xs)
  have "BigInt_digits (a @ xs @ [x]) = 10 * BigInt_digits (a @ xs) + digit_val x"
    using BigInt_digits_snoc [of "a @ xs" x] by simp
  then show ?case
    using snoc by (simp add: BigInt_digits_snoc algebra_simps)
qed

lemma BigInt_digits_leading_zeros: "BigInt_digits (replicate k 0x30 @ s) = BigInt_digits s"
proof -
  have "BigInt_digits ([] @ replicate k 0x30) = BigInt_digits [] * 10 ^ k"
    by (rule BigInt_digits_append_zeros)
  then have "BigInt_digits (replicate k 0x30) = 0"
    by (simp add: BigInt_digits_def)
  then show ?thesis by (simp add: BigInt_digits_append)
qed

text \<open>The loops of the formatter, by what they return.\<close>

lemma pad_whole_shape:
  "\<exists>k. pad_whole d s = replicate k 0x30 @ s \<and> d < k + length s"
proof (induction d s rule: pad_whole.induct)
  case (1 d str)
  show ?case
  proof (cases "length str \<le> d")
    case True
    from 1 [OF True] obtain k where
      k: "pad_whole d (Zeros @ str) = replicate k 0x30 @ Zeros @ str" "d < k + length (Zeros @ str)"
      by blast
    have "pad_whole d str = replicate (k + 128) 0x30 @ str"
      using True k(1) by (simp add: pad_whole.simps [of d str] Zeros_def replicate_add)
    moreover have "d < (k + 128) + length str"
      using k(2) by (simp add: Zeros_def)
    ultimately show ?thesis by blast
  next
    case False
    then have "pad_whole d str = replicate 0 0x30 @ str" "d < 0 + length str"
      by (simp_all add: pad_whole.simps [of d str])
    then show ?thesis by blast
  qed
qed

lemma trim_whole_shape:
  assumes "ws \<noteq> []" and "list_all is_digit ws"
  shows "\<exists>j ws'. trim_whole (ws @ 0x2E # fs) = ws' @ 0x2E # fs \<and> ws' \<noteq> [] \<and>
                 ws = replicate j 0x30 @ ws'"
  using assms
proof (induction ws)
  case Nil
  then show ?case by simp
next
  case (Cons a ws)
  show ?case
  proof (cases ws)
    case Nil
    then have "trim_whole ((a # ws) @ 0x2E # fs) = [a] @ 0x2E # fs" "a # ws = replicate 0 0x30 @ [a]"
      by simp_all
    then show ?thesis by blast
  next
    case (Cons b ws2)
    then have b: "b \<noteq> 0x2E" using Cons.prems by (simp add: is_digit_not_dot)
    show ?thesis
    proof (cases "a = 0x30")
      case True
      from Cons.IH obtain j ws' where
        j: "trim_whole (ws @ 0x2E # fs) = ws' @ 0x2E # fs" "ws' \<noteq> []" "ws = replicate j 0x30 @ ws'"
        using Cons.prems \<open>ws = b # ws2\<close> by auto
      have "trim_whole ((a # ws) @ 0x2E # fs) = ws' @ 0x2E # fs"
        using True b j(1) \<open>ws = b # ws2\<close> by simp
      moreover have "a # ws = replicate (Suc j) 0x30 @ ws'"
        using True j(3) by simp
      ultimately show ?thesis using j(2) by blast
    next
      case False
      then have "trim_whole ((a # ws) @ 0x2E # fs) = (a # ws) @ 0x2E # fs"
        "a # ws = replicate 0 0x30 @ (a # ws)"
        using \<open>ws = b # ws2\<close> by simp_all
      then show ?thesis by blast
    qed
  qed
qed

lemma trim_decimal_shape:
  assumes "fs \<noteq> []" and "list_all is_digit fs"
  shows "\<exists>j fs'. trim_decimal (ws @ 0x2E # fs) = ws @ 0x2E # fs' \<and> fs' \<noteq> [] \<and>
                 fs = fs' @ replicate j 0x30"
proof -
  have "rev fs \<noteq> []" "list_all is_digit (rev fs)" using assms by (simp_all add: list_all_iff)
  from trim_whole_shape [OF this, of "rev ws"] obtain j r where
    r: "trim_whole (rev fs @ 0x2E # rev ws) = r @ 0x2E # rev ws" "r \<noteq> []"
       "rev fs = replicate j 0x30 @ r"
    by blast
  have "trim_decimal (ws @ 0x2E # fs) = ws @ 0x2E # rev r"
    using r(1) by (simp add: trim_decimal_def)
  moreover have "fs = rev r @ replicate j 0x30"
    using r(3) by (metis rev_append rev_replicate rev_rev_ident)
  ultimately show ?thesis using r(2) by (metis rev_is_Nil_conv)
qed


lemma fixed_toString_shape:
  "\<exists>ws fs j. fixed_toString x 18 = (if x < 0 then [0x2D] else []) @ ws @ 0x2E # fs \<and>
      ws \<noteq> [] \<and> list_all is_digit ws \<and> fs \<noteq> [] \<and> list_all is_digit fs \<and>
      length fs + j = 18 \<and> BigInt_digits (ws @ fs @ replicate j 0x30) = nat \<bar>x\<bar>"
proof -
  define str where "str = toString_digits (nat \<bar>x\<bar>)"
  obtain k where k: "pad_whole 18 str = replicate k 0x30 @ str" "18 < k + length str"
    using pad_whole_shape by blast
  define padded where "padded = replicate k 0x30 @ str"
  define W where "W = take (length padded - 18) padded"
  define F where "F = drop (length padded - 18) padded"
  have len: "18 < length padded" using k(2) by (simp add: padded_def)
  have digits: "list_all is_digit padded"
    using toString_digits_digits [of "nat \<bar>x\<bar>"]
    by (auto simp add: padded_def str_def list_all_iff zero_is_digit)
  have WF: "W @ F = padded" by (simp add: W_def F_def)
  have W: "W \<noteq> []" "list_all is_digit W"
    using len digits by (auto simp add: W_def list_all_iff dest: in_set_takeD)
  have F: "length F = 18" "list_all is_digit F"
    using len digits by (auto simp add: F_def list_all_iff dest: in_set_dropD)
  then have Fne: "F \<noteq> []" by auto
  obtain j1 W' where
    W': "trim_whole (W @ 0x2E # F) = W' @ 0x2E # F" "W' \<noteq> []" "W = replicate j1 0x30 @ W'"
    using trim_whole_shape [OF W] by blast
  obtain j2 F' where
    F': "trim_decimal (W' @ 0x2E # F) = W' @ 0x2E # F'" "F' \<noteq> []" "F = F' @ replicate j2 0x30"
    using trim_decimal_shape [OF Fne F(2)] by blast
  have res: "fixed_toString x 18 = (if x < 0 then [0x2D] else []) @ W' @ 0x2E # F'"
    using W'(1) F'(1)
    by (simp add: fixed_toString_def Let_def str_def [symmetric] k(1) padded_def [symmetric]
        W_def [symmetric] F_def [symmetric] js_def)
  have dW': "list_all is_digit W'" using W(2) W'(3) by (simp add: list_all_iff)
  have dF': "list_all is_digit F'" using F(2) F'(3) by (simp add: list_all_iff)
  have lF': "length F' + j2 = 18" using F(1) F'(3) by simp
  have "BigInt_digits (W' @ F' @ replicate j2 0x30) = BigInt_digits (W' @ F)"
    using F'(3) by simp
  also have "\<dots> = BigInt_digits (replicate j1 0x30 @ W' @ F)"
    by (simp only: BigInt_digits_leading_zeros)
  also have "\<dots> = BigInt_digits padded"
    using W'(3) WF by simp
  also have "\<dots> = BigInt_digits str"
    by (simp only: padded_def BigInt_digits_leading_zeros)
  also have "\<dots> = nat \<bar>x\<bar>"
    by (simp add: str_def BigInt_digits_toString)
  finally have v: "BigInt_digits (W' @ F' @ replicate j2 0x30) = nat \<bar>x\<bar>" .
  from res W'(2) dW' F'(2) dF' lF' v show ?thesis by blast
qed

text \<open>Reading a formatted amount gives the amount back: nothing is rounded.\<close>

lemma parseUnits_formatted:
  assumes "checkValue x"
  shows "parseUnits env (fixed_toString x 18) 18 = Inr x"
proof -
  obtain ws fs j where
    s: "fixed_toString x 18 = (if x < 0 then [0x2D] else []) @ ws @ 0x2E # fs"
    and ws: "ws \<noteq> []" "list_all is_digit ws"
    and fs: "fs \<noteq> []" "list_all is_digit fs"
    and j: "length fs + j = 18"
    and v: "BigInt_digits (ws @ fs @ replicate j 0x30) = nat \<bar>x\<bar>"
    using fixed_toString_shape [of x] by blast
  have hd_ws: "hd ws \<noteq> 0x2D"
    using ws by (cases ws) (simp_all add: is_digit_not_minus)
  have tw: "takeWhile is_digit (ws @ 0x2E # fs) = ws" "dropWhile is_digit (ws @ 0x2E # fs) = 0x2E # fs"
    using ws(2) by (simp_all add: list_all_iff dot_not_digit)
  have tf: "takeWhile is_digit fs = fs" "dropWhile is_digit fs = []"
    using fs(2) by (simp_all add: list_all_iff)
  have pt: "take 18 (pad_decimal 18 fs) = fs @ replicate j 0x30"
    using pad_decimal_take [of fs 18] j by auto
  have pd: "list_all (\<lambda>c. c = 0x30) (drop 18 (pad_decimal 18 fs))"
    using pad_decimal_drop [of fs 18] j by auto
  have val: "int (BigInt_digits (ws @ fs @ replicate j 0x30)) = \<bar>x\<bar>"
    using v by simp
  show ?thesis
  proof (cases "x < 0")
    case True
    then show ?thesis
      unfolding parseUnits_def Let_def s
      using assms ws(1) fs(1) by (simp add: tw tf pt pd val)
  next
    case False
    then show ?thesis
      unfolding parseUnits_def Let_def s
      using assms ws(1) fs(1) hd_ws by (simp add: tw tf pt pd val)
  qed
qed


section \<open>The amount shown after a swap\<close>

lemma EscbaseToken_swap_checked:
  "EscbaseToken_swap v = Inr minted \<Longrightarrow> checked_mul v SWAP_RATE = Inr minted"
  unfolding EscbaseToken_swap_def by (cases "v > 0") simp_all

lemma checked_mul_exact:
  "checked_mul a b = Inr m \<Longrightarrow> unat m = unat a * unat b"
proof -
  assume r: "checked_mul a b = Inr m"
  then have "unat a * unat b < 2 ^ 256 \<and> m = a * b"
    unfolding checked_mul_def by (cases "unat a * unat b < 2 ^ 256") simp_all
  then show ?thesis
    using unat_mult_lem [of a b] by simp
qed

lemma EscbaseToken_swap_amount:
  assumes "EscbaseToken_swap v = Inr minted"
  shows "uint minted = uint v * 100000"
proof -
  have "unat minted = unat v * unat SWAP_RATE"
    using assms by (intro checked_mul_exact EscbaseToken_swap_checked)
  then have "unat minted = unat v * 100000"
    by (simp add: SWAP_RATE_def)
  then have "int (unat minted) = int (unat v) * 100000"
    by simp
  then show ?thesis
    by (simp only: uint_nat)
qed

lemma swap_transfer_log:
  assumes "parseUnits env (swapAmount s) 18 = Inr A"
    and "swapUSDCtoESC_transfer env s addr \<sigma> = (Inr signer, \<sigma>')"
  shows "type (hd (logs (app \<sigma>'))) = Success"
    and "message (hd (logs (app \<sigma>'))) =
           js ''Swapped '' @ swapAmount s @ js '' USDC to '' @
           fixed_toString (A * 100000) 18 @ js '' ESC''"
    and "tl (logs (app \<sigma>')) = logs (app \<sigma>)"
    and "checkValue (A * 100000)"
  using assms
  by (auto simp add: swapUSDCtoESC_transfer_def run_defs call_defs set_defs formatUnits_def
      Let_def split: sum.splits if_splits)

text \<open>
  Claim C8. Let \<open>A\<close> be the swap input in native smallest units, that is
  \<^verbatim>\<open>parseUnits(swapAmount, 18)\<close>. Whenever the swap pushes its success entry, the amount
  in its message is the decimal text, with 18 decimals, of the integer \<open>A \<times> 100000\<close>
  computed on unbounded integers, and reading that text back gives exactly
  \<open>A \<times> 100000\<close>: nothing is rounded. The contract's \<^verbatim>\<open>SWAP_RATE\<close> is 100000 as
  well, and a \<^verbatim>\<open>swap\<close> paid \<open>A\<close> that does not revert mints exactly \<open>A \<times> 100000\<close>.
\<close>

theorem swap_message_shows_exact_amount:
  assumes "parseUnits env (swapAmount s) 18 = Inr A"
    and "swapUSDCtoESC_transfer env s addr \<sigma> = (Inr signer, \<sigma>')"
  shows "type (hd (logs (app \<sigma>'))) = Success \<and>
         message (hd (logs (app \<sigma>'))) =
           js ''Swapped '' @ swapAmount s @ js '' USDC to '' @
           fixed_toString (A * 100000) 18 @ js '' ESC'' \<and>
         tl (logs (app \<sigma>')) = logs (app \<sigma>) \<and>
         parseUnits env (fixed_toString (A * 100000) 18) 18 = Inr (A * 100000) \<and>
         uint SWAP_RATE = 100000 \<and>
         (A = uint v \<and> EscbaseToken_swap v = Inr minted \<longrightarrow> uint minted = A * 100000)"
proof -
  have "parseUnits env (fixed_toString (A * 100000) 18) 18 = Inr (A * 100000)"
    using swap_transfer_log(4) [OF assms] by (rule parseUnits_formatted)
  moreover have "uint SWAP_RATE = 100000" by (simp add: SWAP_RATE_def)
  moreover have "uint minted = A * 100000" if "A = uint v" "EscbaseToken_swap v = Inr minted"
    using that EscbaseToken_swap_amount by simp
  ultimately show ?thesis using swap_transfer_log(1-3) [OF assms] by blast
qed



lemma pad_whole_long: "d < length s \<Longrightarrow> pad_whole d s = s"
  by (simp add: pad_whole.simps [of d s])

lemma shown_digits:
  "toString_digits 100000000000000000000000 = js ''100000000000000000000000''"
  by (simp add: toString_digits.simps digit_char_def js_def)

lemma shown_100000: "fixed_toString 100000000000000000000000 18 = js ''100000.0''"
  by (simp add: fixed_toString_def Let_def shown_digits pad_whole_long js_def trim_decimal_def)

lemma EscbaseToken_swap_sample:
  "EscbaseToken_swap 1000000000000000000 = Inr 100000000000000000000000"
  by (simp add: EscbaseToken_swap_def checked_mul_def SWAP_RATE_def)

lemma swap_transfer_env_ok:
  "fst (swapUSDCtoESC_transfer env_ok (app ready_sys) (js ''0xBBB'') (entering ready_sys)) =
     Inr \<lparr>address = js ''0xF00D''\<rparr>"
  by (simp add: swapUSDCtoESC_transfer_def run_defs call_defs set_defs ready_fields
      env_ok_answers parseUnits_1 formatUnits_def checkValue_def entering_def Let_def)

theorem swap_message_shows_exact_amount_witness:
  "parseUnits env_ok (swapAmount (app ready_sys)) 18 = Inr 1000000000000000000 \<and>
   fst (swapUSDCtoESC_transfer env_ok (app ready_sys) (js ''0xBBB'') (entering ready_sys)) =
     Inr \<lparr>address = js ''0xF00D''\<rparr> \<and>
   message (hd (logs (app (snd (swapUSDCtoESC_transfer env_ok (app ready_sys) (js ''0xBBB'')
                                  (entering ready_sys)))))) =
     js ''Swapped 1 USDC to 100000.0 ESC'' \<and>
   parseUnits env_ok (js ''100000.0'') 18 = Inr 100000000000000000000000 \<and>
   EscbaseToken_swap 1000000000000000000 = Inr 100000000000000000000000 \<and>
   uint (100000000000000000000000 :: 256 word) = 1000000000000000000 * 100000"
proof -
  let ?run = "swapUSDCtoESC_transfer env_ok (app ready_sys) (js ''0xBBB'') (entering ready_sys)"
  have p: "parseUnits env_ok (swapAmount (app ready_sys)) 18 = Inr 1000000000000000000"
    using parseUnits_1 [of env_ok] by (simp add: ready_fields)
  have r: "?run = (Inr \<lparr>address = js ''0xF00D''\<rparr>, snd ?run)"
    using swap_transfer_env_ok by (simp add: prod_eq_iff)
  note t = swap_message_shows_exact_amount
    [where env = env_ok and s = "app ready_sys" and A = 1000000000000000000
      and addr = "js ''0xBBB''" and \<sigma> = "entering ready_sys"
      and signer = "\<lparr>address = js ''0xF00D''\<rparr>" and \<sigma>' = "snd ?run"
      and v = 1000000000000000000 and minted = 100000000000000000000000, OF p r]
  have m: "js ''Swapped '' @ js ''1'' @ js '' USDC to '' @ js ''100000.0'' @ js '' ESC'' =
           js ''Swapped 1 USDC to 100000.0 ESC''"
    by (simp add: js_def)
  show ?thesis
    using t p swap_transfer_env_ok
    by (simp add: shown_100000 ready_fields m EscbaseToken_swap_sample)
qed

section \<open>A failing balance refresh\<close>

lemma env_balance_down_answers:
  "getSigner_result env_balance_down h = Inr \<lparr>address = js ''0xF00D''\<rparr>"
  "getBalance_result env_balance_down h a = Inl rpc_down"
  "sendTransaction_result env_balance_down h to v = Inr \<lparr>hash = js ''0x04''\<rparr>"
  "wait_result env_balance_down h tx = Inr ()"
  by (simp_all add: env_balance_down_def env_ok_def)

lemma env_balance_down_send:
  "ethereum env_balance_down"
  "send_result env_balance_down h m p = Inr (JString (js ''0x4CEF52''))"
  "swap_result env_balance_down h a v = Inr \<lparr>hash = js ''0x03''\<rparr>"
  by (simp_all add: env_balance_down_def env_ok_def)

lemma connect_env_balance_down:
  "fst (connect env_balance_down initial_sys) = Inr ()"
  "logs (app (snd (connect env_balance_down initial_sys))) =
     [\<lparr>type = Success, message = js ''Wallet connected and on Arc Testnet.'', href = None\<rparr>]"
  "nativeBalance (app (snd (connect env_balance_down initial_sys))) = []"
proof -
  have r: "ensureArcNetwork env_balance_down prov \<sigma> =
           (Inr True, \<sigma>\<lparr>history := history \<sigma> @ [(chainId_call, True)]\<rparr>)" for prov \<sigma>
    by (rule ensureArcNetwork_on_target [OF env_balance_down_send(2) upper_case_on_target])
  show "fst (connect env_balance_down initial_sys) = Inr ()"
    "logs (app (snd (connect env_balance_down initial_sys))) =
     [\<lparr>type = Success, message = js ''Wallet connected and on Arc Testnet.'', href = None\<rparr>]"
    "nativeBalance (app (snd (connect env_balance_down initial_sys))) = []"
    by (simp_all add: connect_def bind_def r Let_def send_def getSigner_def request_def
        modify_def try_catch_def refreshBalance_def getBalance_def ret_def pushLog_def
        env_balance_down_send env_balance_down_answers initial_sys_def initial_state_def)
qed

lemma send_env_balance_down:
  "fst (sendUSDC env_balance_down ready_sys) = Inr ()"
  "history (snd (sendUSDC env_balance_down ready_sys)) =
     [(GetSigner, True), (SendTransaction (js ''0xF00D'') (10 ^ 18), True),
      (Wait (js ''0x04''), True), (GetBalance (js ''0xF00D''), False)]"
  "logs (app (snd (sendUSDC env_balance_down ready_sys))) =
     [\<lparr>type = Error, message = js ''rpc down'', href = None\<rparr>,
      \<lparr>type = Success, message = js ''Sent 1 USDC to 0xF00D'' @ [0x2026] @ js ''F00D'',
        href = Some (txLink (js ''0x04''))\<rparr>]"
  "nativeBalance (app (snd (sendUSDC env_balance_down ready_sys))) = js ''5.0''"
proof -
  have g: "sendUSDC env_balance_down ready_sys =
           with_busy (sendUSDC_try env_balance_down (app ready_sys)) ready_sys"
    by (rule sendUSDC_guard) (simp_all add: ready_fields sample_nonempty)
  have t: "sendUSDC_try env_balance_down (app ready_sys) (entering ready_sys) =
     (Inl rpc_down, (entering ready_sys)\<lparr>app := (app (entering ready_sys))\<lparr>
          logs := [\<lparr>type = Success,
                     message = js ''Sent 1 USDC to 0xF00D'' @ [0x2026] @ js ''F00D'',
                     href = Some (txLink (js ''0x04''))\<rparr>],
          sendRecipient := [], sendAmount := []\<rparr>,
        history := [(GetSigner, True), (SendTransaction (js ''0xF00D'') (10 ^ 18), True),
                    (Wait (js ''0x04''), True), (GetBalance (js ''0xF00D''), False)]\<rparr>)"
    by (simp add: sendUSDC_try_def sendUSDC_transfer_def refreshBalance_def run_defs call_defs
        set_defs entering_def ready_fields env_balance_down_answers parseUnits_1 Let_def)
      (simp add: js_def)
  note r = with_busy_caught
      [where body = "sendUSDC_try env_balance_down (app ready_sys)" and \<sigma> = ready_sys, OF t]
  show "fst (sendUSDC env_balance_down ready_sys) = Inr ()"
    "history (snd (sendUSDC env_balance_down ready_sys)) =
     [(GetSigner, True), (SendTransaction (js ''0xF00D'') (10 ^ 18), True),
      (Wait (js ''0x04''), True), (GetBalance (js ''0xF00D''), False)]"
    "logs (app (snd (sendUSDC env_balance_down ready_sys))) =
     [\<lparr>type = Error, message = js ''rpc down'', href = None\<rparr>,
      \<lparr>type = Success, message = js ''Sent 1 USDC to 0xF00D'' @ [0x2026] @ js ''F00D'',
        href = Some (txLink (js ''0x04''))\<rparr>]"
    "nativeBalance (app (snd (sendUSDC env_balance_down ready_sys))) = js ''5.0''"
    by (simp_all add: g r caught_def error_entry_def getErrorMessage_rpc_down entering_def
        ready_fields)
qed

lemma swap_env_balance_down:
  "logs (app (snd (swapUSDCtoESC env_balance_down ready_sys))) =
     [\<lparr>type = Error, message = js ''rpc down'', href = None\<rparr>,
      \<lparr>type = Success, message = js ''Swapped 1 USDC to 100000.0 ESC'',
        href = Some (txLink (js ''0x03''))\<rparr>]"
proof -
  have g: "swapUSDCtoESC env_balance_down ready_sys =
           with_busy (swapUSDCtoESC_try env_balance_down (app ready_sys) (js ''0xBBB'')) ready_sys"
    by (rule swapUSDCtoESC_guard) (simp_all add: ready_fields sample_nonempty)
  have t: "swapUSDCtoESC_try env_balance_down (app ready_sys) (js ''0xBBB'') (entering ready_sys) =
     (Inl rpc_down, (entering ready_sys)\<lparr>app := (app (entering ready_sys))\<lparr>
          logs := [\<lparr>type = Success, message = js ''Swapped 1 USDC to 100000.0 ESC'',
                     href = Some (txLink (js ''0x03''))\<rparr>],
          swapAmount := []\<rparr>,
        history := [(GetSigner, True), (Swap (js ''0xBBB'') (10 ^ 18), True),
                    (Wait (js ''0x03''), True), (GetBalance (js ''0xF00D''), False)]\<rparr>)"
    by (simp add: swapUSDCtoESC_try_def swapUSDCtoESC_transfer_def refreshBalance_def run_defs
        call_defs set_defs entering_def ready_fields env_balance_down_answers
        env_balance_down_send parseUnits_1 formatUnits_def checkValue_def shown_100000 Let_def)
      (simp add: js_def)
  show ?thesis
    by (simp add: g with_busy_caught
          [where body = "swapUSDCtoESC_try env_balance_down (app ready_sys) (js ''0xBBB'')"
            and \<sigma> = ready_sys, OF t]
        caught_def error_entry_def getErrorMessage_rpc_down entering_def ready_fields)
qed

text \<open>
  Claim C9 says that a failing balance read never produces a log entry, also after a
  successful send or swap. In \<^verbatim>\<open>connect\<close> the read stands in its own
  \<^verbatim>\<open>try { ... } catch {}\<close>: with a chain whose balance reads fail, connect ends
  normally, logs its success entry alone and leaves the balance empty. In
  \<^verbatim>\<open>sendUSDC\<close> and \<^verbatim>\<open>swapUSDCtoESC\<close> the read stands in the action's \<^verbatim>\<open>try\<close>
  block, so its failure reaches the shared \<^verbatim>\<open>catch\<close>: after a confirmed transfer of
  1 USDC, and after a confirmed swap of 1 USDC, the log gets an error entry on top of the
  success entry, and the balance shown stays the old one.
\<close>

theorem balance_refresh_failure_is_logged:
  "fst (connect env_balance_down initial_sys) = Inr () \<and>
   logs (app (snd (connect env_balance_down initial_sys))) =
     [\<lparr>type = Success, message = js ''Wallet connected and on Arc Testnet.'', href = None\<rparr>] \<and>
   nativeBalance (app (snd (connect env_balance_down initial_sys))) = [] \<and>
   fst (sendUSDC env_balance_down ready_sys) = Inr () \<and>
   history (snd (sendUSDC env_balance_down ready_sys)) =
     [(GetSigner, True), (SendTransaction (js ''0xF00D'') (10 ^ 18), True),
      (Wait (js ''0x04''), True), (GetBalance (js ''0xF00D''), False)] \<and>
   logs (app (snd (sendUSDC env_balance_down ready_sys))) =
     [\<lparr>type = Error, message = js ''rpc down'', href = None\<rparr>,
      \<lparr>type = Success, message = js ''Sent 1 USDC to 0xF00D'' @ [0x2026] @ js ''F00D'',
        href = Some (txLink (js ''0x04''))\<rparr>] \<and>
   nativeBalance (app (snd (sendUSDC env_balance_down ready_sys))) = js ''5.0'' \<and>
   logs (app (snd (swapUSDCtoESC env_balance_down ready_sys))) =
     [\<lparr>type = Error, message = js ''rpc down'', href = None\<rparr>,
      \<lparr>type = Success, message = js ''Swapped 1 USDC to 100000.0 ESC'',
        href = Some (txLink (js ''0x03''))\<rparr>]"
  by (simp only: connect_env_balance_down send_env_balance_down swap_env_balance_down simp_thms)

end
